theory Spec2Isabelle
  imports Main "HOL-Library.Sublist" "HOL-Library.AList"
begin

section \<open>JavaScript values and strings\<close>

text \<open>
  A string is the list of the bytes of its UTF-8 encoding (a lone surrogate being encoded
  like any other code point of its size): an ASCII character is one byte, U+00A0 is the
  two bytes \<open>0xC2 0xA0\<close>. Every character that the code tests for or produces is ASCII,
  and an ASCII byte never occurs inside the encoding of another character, so splitting,
  matching and comparing work on the bytes as they do on the characters.

  The values that reach \<open>normalizeNumericValue\<close> and \<open>getTailwindClass\<close> are
  \<open>string | number | null | undefined\<close>. These functions read a number through
  \<open>!value\<close> and \<open>String(value)\<close> only, so a number is represented by the string that
  \<open>String(value)\<close> returns for it: \<open>16\<close>, \<open>-0.5\<close>, \<open>1e+21\<close>, \<open>Infinity\<close>, \<open>NaN\<close>.
\<close>

datatype jsvalue = JNull | JUndefined | JString string | JNumber string

text \<open>
  \<open>!value\<close>: null, undefined and the empty string are falsy, and so are the numbers
  \<open>0\<close>, \<open>-0\<close> and \<open>NaN\<close>. The first two print as \<open>0\<close>, the third as \<open>NaN\<close>, and
  no other number prints as either.
\<close>

fun falsy :: "jsvalue \<Rightarrow> bool" where
  "falsy JNull = True"
| "falsy JUndefined = True"
| "falsy (JString s) = (s = [])"
| "falsy (JNumber r) = (r = ''0'' \<or> r = ''NaN'')"

text \<open>
  The numeric fields of the inspector state are integers (slider values);
  \<open>show_int\<close> and \<open>show_div100\<close> print them as JavaScript prints an integer of
  magnitude below \<open>10^21\<close> and its hundredth.
\<close>

definition digit_char :: "nat \<Rightarrow> char" where
  "digit_char d = char_of (48 + d)"

text \<open>Decimal rendering of a natural number, most significant digit first.\<close>

fun show_nat :: "nat \<Rightarrow> string" where
  "show_nat n = (if n < 10 then [digit_char n] else show_nat (n div 10) @ [digit_char (n mod 10)])"

declare show_nat.simps [simp del]

text \<open>\<open>String(n)\<close> for an integer \<open>n\<close>.\<close>

definition show_int :: "int \<Rightarrow> string" where
  "show_int n = (if n < 0 then CHR ''-'' # show_nat (nat (- n)) else show_nat (nat n))"

text \<open>
  \<open>String(n / 100)\<close> for an integer \<open>n\<close>: the quotient has at most two decimals and
  JavaScript prints the shortest form, without trailing zeros.
\<close>

definition show_div100 :: "int \<Rightarrow> string" where
  "show_div100 n =
     (let a = nat \<bar>n\<bar>; q = a div 100; r = a mod 100;
          sign = (if n < 0 then ''-'' else [])
      in if r = 0 then sign @ show_nat q
         else if r mod 10 = 0 then sign @ show_nat q @ ''.'' @ [digit_char (r div 10)]
         else sign @ show_nat q @ ''.'' @ [digit_char (r div 10), digit_char (r mod 10)])"

text \<open>\<open>String(value)\<close>.\<close>

fun js_String :: "jsvalue \<Rightarrow> string" where
  "js_String JNull = ''null''"
| "js_String JUndefined = ''undefined''"
| "js_String (JString s) = s"
| "js_String (JNumber r) = r"

text \<open>
  The characters that \<open>String.prototype.trim\<close> removes, in UTF-8: the white space
  U+0009, U+000B, U+000C, U+0020, U+00A0, U+1680, U+2000 to U+200A, U+202F, U+205F,
  U+3000, U+FEFF and the line terminators U+000A, U+000D, U+2028, U+2029.
\<close>

definition white_space :: "string list" where
  "white_space =
     [[CHR 0x09], [CHR 0x0A], [CHR 0x0B], [CHR 0x0C], [CHR 0x0D], [CHR 0x20],
      [CHR 0xC2, CHR 0xA0],
      [CHR 0xE1, CHR 0x9A, CHR 0x80],
      [CHR 0xE2, CHR 0x80, CHR 0x80], [CHR 0xE2, CHR 0x80, CHR 0x81],
      [CHR 0xE2, CHR 0x80, CHR 0x82], [CHR 0xE2, CHR 0x80, CHR 0x83],
      [CHR 0xE2, CHR 0x80, CHR 0x84], [CHR 0xE2, CHR 0x80, CHR 0x85],
      [CHR 0xE2, CHR 0x80, CHR 0x86], [CHR 0xE2, CHR 0x80, CHR 0x87],
      [CHR 0xE2, CHR 0x80, CHR 0x88], [CHR 0xE2, CHR 0x80, CHR 0x89],
      [CHR 0xE2, CHR 0x80, CHR 0x8A],
      [CHR 0xE2, CHR 0x80, CHR 0xA8], [CHR 0xE2, CHR 0x80, CHR 0xA9],
      [CHR 0xE2, CHR 0x80, CHR 0xAF],
      [CHR 0xE2, CHR 0x81, CHR 0x9F],
      [CHR 0xE3, CHR 0x80, CHR 0x80],
      [CHR 0xEF, CHR 0xBB, CHR 0xBF]]"

text \<open>
  \<open>strip ws s\<close> removes from the start of \<open>s\<close> every leading occurrence of one of the
  byte sequences \<open>ws\<close>, until \<open>s\<close> starts with none of them.
\<close>

function strip :: "string list \<Rightarrow> string \<Rightarrow> string" where
  "strip ws s =
     (case find (\<lambda>w. w \<noteq> [] \<and> prefix w s) ws of
        None \<Rightarrow> s
      | Some w \<Rightarrow> strip ws (drop (length w) s))"
  by pat_completeness auto
termination
  by (relation "measure (\<lambda>(ws, s). length s)") (auto simp: find_Some_iff prefix_def)

declare strip.simps [simp del]

definition trimStart :: "string \<Rightarrow> string" where
  "trimStart s = strip white_space s"

definition trimEnd :: "string \<Rightarrow> string" where
  "trimEnd s = rev (strip (map rev white_space) (rev s))"

text \<open>\<open>s.trim()\<close>.\<close>

definition trim :: "string \<Rightarrow> string" where
  "trim s = trimEnd (trimStart s)"

text \<open>\<open>xs.join(sep)\<close>.\<close>

fun join :: "string \<Rightarrow> string list \<Rightarrow> string" where
  "join sep [] = []"
| "join sep [x] = x"
| "join sep (x # y # ys) = x @ sep @ join sep (y # ys)"

text \<open>\<open>s.split(c)\<close> for a one-character separator: never empty, \<open>''''.split(c) = ['''']\<close>.\<close>

fun split :: "char \<Rightarrow> string \<Rightarrow> string list" where
  "split c [] = [[]]"
| "split c (x # xs) =
     (if x = c then [] # split c xs
      else (case split c xs of [] \<Rightarrow> [[x]] | w # ws \<Rightarrow> (x # w) # ws))"

text \<open>\<open>s.startsWith(p)\<close> is \<^const>\<open>prefix\<close>; \<open>xs.filter(Boolean)\<close> on strings keeps the non-empty ones.\<close>

definition filter_Boolean :: "string list \<Rightarrow> string list" where
  "filter_Boolean xs = filter (\<lambda>s. s \<noteq> []) xs"

section \<open>Value Normalizer\<close>

text \<open>The character class \<open>[\<bsol>d.-]\<close> of the regular expression in \<open>normalizeNumericValue\<close>.\<close>

definition is_digit :: "char \<Rightarrow> bool" where
  "is_digit c = (c \<in> set ''0123456789'')"

definition numeric_char :: "char \<Rightarrow> bool" where
  "numeric_char c = (is_digit c \<or> c = CHR ''.'' \<or> c = CHR ''-'')"

text \<open>
  \<open>str.match(/^([\<bsol>d.-]+)/)\<close>: the greedy, non-empty run of class characters at the
  start of the string (capture group 1), or null when the string does not start with one.
\<close>

definition match_numeric_run :: "string \<Rightarrow> string option" where
  "match_numeric_run str =
     (let m = takeWhile numeric_char str in if m = [] then None else Some m)"

text \<open>
  \<^verbatim>\<open>
  function normalizeNumericValue(value: string | number | null | undefined): string {
    if (!value) return '';
    const str = String(value).trim();
    const numMatch = str.match(/^([\d.-]+)/);
    return numMatch ? numMatch[1] : str;
  }
  \<close>
  The function has no throwing path: it is total, with a string for every input.
\<close>

definition normalizeNumericValue :: "jsvalue \<Rightarrow> string" where
  "normalizeNumericValue v =
     (if falsy v then []
      else let str = trim (js_String v)
           in (case match_numeric_run str of Some m \<Rightarrow> m | None \<Rightarrow> str))"

text \<open>
  The specification's wording of the normalizer: the literals of
  \<open>[-]?[0-9]*[.]?[0-9]+\<close>, and the longest prefix of a string that is such a literal.
\<close>

definition spec_numeric_literal :: "string \<Rightarrow> bool" where
  "spec_numeric_literal s =
     (let body = (case s of c # r \<Rightarrow> if c = CHR ''-'' then r else s | [] \<Rightarrow> s);
          ds = takeWhile is_digit body; rest = dropWhile is_digit body
      in if rest = [] then ds \<noteq> []
         else hd rest = CHR ''.'' \<and> tl rest \<noteq> [] \<and> list_all is_digit (tl rest))"

definition spec_longest_literal :: "string \<Rightarrow> string option" where
  "spec_longest_literal s =
     (case filter spec_numeric_literal (rev (prefixes s)) of [] \<Rightarrow> None | p # _ \<Rightarrow> Some p)"

definition spec_normalize :: "jsvalue \<Rightarrow> string" where
  "spec_normalize v =
     (let s = js_String v
      in (case spec_longest_literal (trim s) of Some p \<Rightarrow> p | None \<Rightarrow> s))"

text \<open>
  A stored spacing value that normalization turns into a run of class characters: it is
  empty or blank, or its trimmed form starts with a digit, a dot or a minus sign.
\<close>

definition starts_numeric :: "string \<Rightarrow> bool" where
  "starts_numeric v = (case trim v of [] \<Rightarrow> True | c # _ \<Rightarrow> numeric_char c)"

section \<open>The inspector state\<close>

text \<open>
  Modelled from the spec: the type declarations \<open>InspectorState\<close> and \<open>Breakpoint\<close>
  (\<open>./types\<close>) are not among the sources. The groups and their fields are those of the
  specification's data model; a field is a string where the generators test it for
  truthiness or compare it with a string literal, and a number where they compare it with
  a numeric literal. The per-corner fields of \<open>border.radius\<close> are never read by the
  generators; they stand here under the names \<open>tl, tr, br, bl\<close>. Field names carry the
  name of their group, since the groups share names such as \<open>l\<close> and \<open>t\<close>.
\<close>

datatype Breakpoint = Base | Sm | Md | Lg | Xl | XXl

datatype PositionType = Static | Relative | Absolute | Fixed | Sticky

record Padding =
  padding_l :: string
  padding_t :: string
  padding_r :: string
  padding_b :: string

record Margin =
  margin_x :: string
  margin_y :: string

record Position =
  position_type :: PositionType
  position_zIndex :: string
  position_l :: string
  position_t :: string
  position_r :: string
  position_b :: string

record Size =
  size_width :: string
  size_height :: string
  size_maxWidth :: string
  size_maxHeight :: string
  size_minWidth :: string
  size_minHeight :: string

record Typography =
  typography_fontFamily :: string
  typography_fontWeight :: string
  typography_fontSize :: string
  typography_letterSpacing :: string
  typography_lineHeight :: string
  typography_textAlign :: string
  typography_textColor :: string

record Transforms =
  transforms_rotate :: int
  transforms_scale :: int
  transforms_translateX :: int
  transforms_translateY :: int
  transforms_skewX :: int
  transforms_skewY :: int

record Transforms3D =
  transforms3D_rotateX :: int
  transforms3D_rotateY :: int
  transforms3D_rotateZ :: int
  transforms3D_perspective :: int

record Effects =
  effects_opacity :: int
  effects_blur :: int
  effects_backdropBlur :: int
  effects_hueRotate :: int
  effects_saturation :: int
  effects_brightness :: int
  effects_contrast :: int
  effects_grayscale :: int
  effects_invert :: int
  effects_sepia :: int
  effects_shadow :: string

record BorderRadius =
  radius_all :: int
  radius_tl :: int
  radius_tr :: int
  radius_br :: int
  radius_bl :: int

record Border =
  border_width :: string
  border_style :: string
  border_color :: string
  border_radius :: BorderRadius

record Appearance =
  appearance_backgroundColor :: string
  appearance_backgroundImage :: string
  appearance_blendMode :: string

record InspectorState =
  tag :: string
  elementId :: string
  textContent :: string
  link :: string
  inlineCSS :: string
  tailwindClasses :: "string list"
  padding :: Padding
  margin :: Margin
  position :: Position
  size_box :: Size
  typography :: Typography
  transforms :: Transforms
  transforms3D :: Transforms3D
  border :: Border
  effects :: Effects
  appearance :: Appearance

text \<open>
  \<open>Partial<InspectorState>\<close> as the update functions build it: every key may be absent
  (\<open>None\<close>), at the top level, inside a group and inside \<open>border.radius\<close>.
\<close>

record PartialPadding =
  partial_padding_l :: "string option"
  partial_padding_t :: "string option"
  partial_padding_r :: "string option"
  partial_padding_b :: "string option"

record PartialMargin =
  partial_margin_x :: "string option"
  partial_margin_y :: "string option"

record PartialPosition =
  partial_position_type :: "PositionType option"
  partial_position_zIndex :: "string option"
  partial_position_l :: "string option"
  partial_position_t :: "string option"
  partial_position_r :: "string option"
  partial_position_b :: "string option"

record PartialSize =
  partial_size_width :: "string option"
  partial_size_height :: "string option"
  partial_size_maxWidth :: "string option"
  partial_size_maxHeight :: "string option"
  partial_size_minWidth :: "string option"
  partial_size_minHeight :: "string option"

record PartialTypography =
  partial_typography_fontFamily :: "string option"
  partial_typography_fontWeight :: "string option"
  partial_typography_fontSize :: "string option"
  partial_typography_letterSpacing :: "string option"
  partial_typography_lineHeight :: "string option"
  partial_typography_textAlign :: "string option"
  partial_typography_textColor :: "string option"

record PartialTransforms =
  partial_transforms_rotate :: "int option"
  partial_transforms_scale :: "int option"
  partial_transforms_translateX :: "int option"
  partial_transforms_translateY :: "int option"
  partial_transforms_skewX :: "int option"
  partial_transforms_skewY :: "int option"

record PartialTransforms3D =
  partial_transforms3D_rotateX :: "int option"
  partial_transforms3D_rotateY :: "int option"
  partial_transforms3D_rotateZ :: "int option"
  partial_transforms3D_perspective :: "int option"

record PartialEffects =
  partial_effects_opacity :: "int option"
  partial_effects_blur :: "int option"
  partial_effects_backdropBlur :: "int option"
  partial_effects_hueRotate :: "int option"
  partial_effects_saturation :: "int option"
  partial_effects_brightness :: "int option"
  partial_effects_contrast :: "int option"
  partial_effects_grayscale :: "int option"
  partial_effects_invert :: "int option"
  partial_effects_sepia :: "int option"
  partial_effects_shadow :: "string option"

record PartialBorderRadius =
  partial_radius_all :: "int option"
  partial_radius_tl :: "int option"
  partial_radius_tr :: "int option"
  partial_radius_br :: "int option"
  partial_radius_bl :: "int option"

record PartialBorder =
  partial_border_width :: "string option"
  partial_border_style :: "string option"
  partial_border_color :: "string option"
  partial_border_radius :: "PartialBorderRadius option"

record PartialAppearance =
  partial_appearance_backgroundColor :: "string option"
  partial_appearance_backgroundImage :: "string option"
  partial_appearance_blendMode :: "string option"

record PartialInspectorState =
  partial_tag :: "string option"
  partial_elementId :: "string option"
  partial_textContent :: "string option"
  partial_link :: "string option"
  partial_inlineCSS :: "string option"
  partial_tailwindClasses :: "string list option"
  partial_padding :: "PartialPadding option"
  partial_margin :: "PartialMargin option"
  partial_position :: "PartialPosition option"
  partial_size :: "PartialSize option"
  partial_typography :: "PartialTypography option"
  partial_transforms :: "PartialTransforms option"
  partial_transforms3D :: "PartialTransforms3D option"
  partial_border :: "PartialBorder option"
  partial_effects :: "PartialEffects option"
  partial_appearance :: "PartialAppearance option"

text \<open>The empty object \<open>{}\<close> at each of these types.\<close>

definition empty_padding :: PartialPadding where
  "empty_padding = \<lparr>partial_padding_l = None, partial_padding_t = None,
     partial_padding_r = None, partial_padding_b = None\<rparr>"

definition empty_margin :: PartialMargin where
  "empty_margin = \<lparr>partial_margin_x = None, partial_margin_y = None\<rparr>"

definition empty_position :: PartialPosition where
  "empty_position = \<lparr>partial_position_type = None, partial_position_zIndex = None,
     partial_position_l = None, partial_position_t = None,
     partial_position_r = None, partial_position_b = None\<rparr>"

definition empty_size :: PartialSize where
  "empty_size = \<lparr>partial_size_width = None, partial_size_height = None,
     partial_size_maxWidth = None, partial_size_maxHeight = None,
     partial_size_minWidth = None, partial_size_minHeight = None\<rparr>"

definition empty_typography :: PartialTypography where
  "empty_typography = \<lparr>partial_typography_fontFamily = None,
     partial_typography_fontWeight = None, partial_typography_fontSize = None,
     partial_typography_letterSpacing = None, partial_typography_lineHeight = None,
     partial_typography_textAlign = None, partial_typography_textColor = None\<rparr>"

definition empty_transforms :: PartialTransforms where
  "empty_transforms = \<lparr>partial_transforms_rotate = None, partial_transforms_scale = None,
     partial_transforms_translateX = None, partial_transforms_translateY = None,
     partial_transforms_skewX = None, partial_transforms_skewY = None\<rparr>"

definition empty_transforms3D :: PartialTransforms3D where
  "empty_transforms3D = \<lparr>partial_transforms3D_rotateX = None,
     partial_transforms3D_rotateY = None, partial_transforms3D_rotateZ = None,
     partial_transforms3D_perspective = None\<rparr>"

definition empty_effects :: PartialEffects where
  "empty_effects = \<lparr>partial_effects_opacity = None, partial_effects_blur = None,
     partial_effects_backdropBlur = None, partial_effects_hueRotate = None,
     partial_effects_saturation = None, partial_effects_brightness = None,
     partial_effects_contrast = None, partial_effects_grayscale = None,
     partial_effects_invert = None, partial_effects_sepia = None,
     partial_effects_shadow = None\<rparr>"

definition empty_radius :: PartialBorderRadius where
  "empty_radius = \<lparr>partial_radius_all = None, partial_radius_tl = None,
     partial_radius_tr = None, partial_radius_br = None, partial_radius_bl = None\<rparr>"

definition empty_border :: PartialBorder where
  "empty_border = \<lparr>partial_border_width = None, partial_border_style = None,
     partial_border_color = None, partial_border_radius = None\<rparr>"

definition empty_appearance :: PartialAppearance where
  "empty_appearance = \<lparr>partial_appearance_backgroundColor = None,
     partial_appearance_backgroundImage = None, partial_appearance_blendMode = None\<rparr>"

definition empty_state :: PartialInspectorState where
  "empty_state = \<lparr>partial_tag = None, partial_elementId = None, partial_textContent = None,
     partial_link = None, partial_inlineCSS = None, partial_tailwindClasses = None,
     partial_padding = None, partial_margin = None, partial_position = None,
     partial_size = None, partial_typography = None, partial_transforms = None,
     partial_transforms3D = None, partial_border = None, partial_effects = None,
     partial_appearance = None\<rparr>"

text \<open>\<open>Object.keys(o).length\<close> for a partial state: the number of keys present.\<close>

definition present :: "'a option \<Rightarrow> nat" where
  "present x = (case x of None \<Rightarrow> 0 | Some _ \<Rightarrow> 1)"

definition keys_length :: "PartialInspectorState \<Rightarrow> nat" where
  "keys_length o' =
     present (partial_tag o') + present (partial_elementId o') +
     present (partial_textContent o') + present (partial_link o') +
     present (partial_inlineCSS o') + present (partial_tailwindClasses o') +
     present (partial_padding o') + present (partial_margin o') +
     present (partial_position o') + present (partial_size o') +
     present (partial_typography o') + present (partial_transforms o') +
     present (partial_transforms3D o') + present (partial_border o') +
     present (partial_effects o') + present (partial_appearance o')"

section \<open>State store\<close>

text \<open>
  The hook \<open>useInspectorState\<close> keeps the base state, one partial state per breakpoint
  and the current breakpoint; every setter yields a new store.
\<close>

record Store =
  state :: InspectorState
  breakpointStates :: "Breakpoint \<Rightarrow> PartialInspectorState"
  currentBreakpoint :: Breakpoint

text \<open>One key of an object spread \<open>{...a, ...b}\<close>: the key of \<open>b\<close> wins when present.\<close>

definition spread :: "'a \<Rightarrow> 'a option \<Rightarrow> 'a" where
  "spread a b = (case b of None \<Rightarrow> a | Some v \<Rightarrow> v)"

text \<open>\<open>x || {}\<close> for an optional object.\<close>

definition or_empty :: "'a option \<Rightarrow> 'a \<Rightarrow> 'a" where
  "or_empty x e = (case x of None \<Rightarrow> e | Some v \<Rightarrow> v)"

definition spread_padding :: "Padding \<Rightarrow> PartialPadding \<Rightarrow> Padding" where
  "spread_padding a b =
     \<lparr>padding_l = spread (padding_l a) (partial_padding_l b),
      padding_t = spread (padding_t a) (partial_padding_t b),
      padding_r = spread (padding_r a) (partial_padding_r b),
      padding_b = spread (padding_b a) (partial_padding_b b)\<rparr>"

definition spread_margin :: "Margin \<Rightarrow> PartialMargin \<Rightarrow> Margin" where
  "spread_margin a b =
     \<lparr>margin_x = spread (margin_x a) (partial_margin_x b),
      margin_y = spread (margin_y a) (partial_margin_y b)\<rparr>"

definition spread_position :: "Position \<Rightarrow> PartialPosition \<Rightarrow> Position" where
  "spread_position a b =
     \<lparr>position_type = spread (position_type a) (partial_position_type b),
      position_zIndex = spread (position_zIndex a) (partial_position_zIndex b),
      position_l = spread (position_l a) (partial_position_l b),
      position_t = spread (position_t a) (partial_position_t b),
      position_r = spread (position_r a) (partial_position_r b),
      position_b = spread (position_b a) (partial_position_b b)\<rparr>"

definition spread_size :: "Size \<Rightarrow> PartialSize \<Rightarrow> Size" where
  "spread_size a b =
     \<lparr>size_width = spread (size_width a) (partial_size_width b),
      size_height = spread (size_height a) (partial_size_height b),
      size_maxWidth = spread (size_maxWidth a) (partial_size_maxWidth b),
      size_maxHeight = spread (size_maxHeight a) (partial_size_maxHeight b),
      size_minWidth = spread (size_minWidth a) (partial_size_minWidth b),
      size_minHeight = spread (size_minHeight a) (partial_size_minHeight b)\<rparr>"

definition spread_typography :: "Typography \<Rightarrow> PartialTypography \<Rightarrow> Typography" where
  "spread_typography a b =
     \<lparr>typography_fontFamily = spread (typography_fontFamily a) (partial_typography_fontFamily b),
      typography_fontWeight = spread (typography_fontWeight a) (partial_typography_fontWeight b),
      typography_fontSize = spread (typography_fontSize a) (partial_typography_fontSize b),
      typography_letterSpacing =
        spread (typography_letterSpacing a) (partial_typography_letterSpacing b),
      typography_lineHeight = spread (typography_lineHeight a) (partial_typography_lineHeight b),
      typography_textAlign = spread (typography_textAlign a) (partial_typography_textAlign b),
      typography_textColor = spread (typography_textColor a) (partial_typography_textColor b)\<rparr>"

definition spread_transforms :: "Transforms \<Rightarrow> PartialTransforms \<Rightarrow> Transforms" where
  "spread_transforms a b =
     \<lparr>transforms_rotate = spread (transforms_rotate a) (partial_transforms_rotate b),
      transforms_scale = spread (transforms_scale a) (partial_transforms_scale b),
      transforms_translateX = spread (transforms_translateX a) (partial_transforms_translateX b),
      transforms_translateY = spread (transforms_translateY a) (partial_transforms_translateY b),
      transforms_skewX = spread (transforms_skewX a) (partial_transforms_skewX b),
      transforms_skewY = spread (transforms_skewY a) (partial_transforms_skewY b)\<rparr>"

definition spread_transforms3D :: "Transforms3D \<Rightarrow> PartialTransforms3D \<Rightarrow> Transforms3D" where
  "spread_transforms3D a b =
     \<lparr>transforms3D_rotateX = spread (transforms3D_rotateX a) (partial_transforms3D_rotateX b),
      transforms3D_rotateY = spread (transforms3D_rotateY a) (partial_transforms3D_rotateY b),
      transforms3D_rotateZ = spread (transforms3D_rotateZ a) (partial_transforms3D_rotateZ b),
      transforms3D_perspective =
        spread (transforms3D_perspective a) (partial_transforms3D_perspective b)\<rparr>"

definition spread_effects :: "Effects \<Rightarrow> PartialEffects \<Rightarrow> Effects" where
  "spread_effects a b =
     \<lparr>effects_opacity = spread (effects_opacity a) (partial_effects_opacity b),
      effects_blur = spread (effects_blur a) (partial_effects_blur b),
      effects_backdropBlur = spread (effects_backdropBlur a) (partial_effects_backdropBlur b),
      effects_hueRotate = spread (effects_hueRotate a) (partial_effects_hueRotate b),
      effects_saturation = spread (effects_saturation a) (partial_effects_saturation b),
      effects_brightness = spread (effects_brightness a) (partial_effects_brightness b),
      effects_contrast = spread (effects_contrast a) (partial_effects_contrast b),
      effects_grayscale = spread (effects_grayscale a) (partial_effects_grayscale b),
      effects_invert = spread (effects_invert a) (partial_effects_invert b),
      effects_sepia = spread (effects_sepia a) (partial_effects_sepia b),
      effects_shadow = spread (effects_shadow a) (partial_effects_shadow b)\<rparr>"

definition spread_radius :: "BorderRadius \<Rightarrow> PartialBorderRadius \<Rightarrow> BorderRadius" where
  "spread_radius a b =
     \<lparr>radius_all = spread (radius_all a) (partial_radius_all b),
      radius_tl = spread (radius_tl a) (partial_radius_tl b),
      radius_tr = spread (radius_tr a) (partial_radius_tr b),
      radius_br = spread (radius_br a) (partial_radius_br b),
      radius_bl = spread (radius_bl a) (partial_radius_bl b)\<rparr>"

definition spread_appearance :: "Appearance \<Rightarrow> PartialAppearance \<Rightarrow> Appearance" where
  "spread_appearance a b =
     \<lparr>appearance_backgroundColor =
        spread (appearance_backgroundColor a) (partial_appearance_backgroundColor b),
      appearance_backgroundImage =
        spread (appearance_backgroundImage a) (partial_appearance_backgroundImage b),
      appearance_blendMode = spread (appearance_blendMode a) (partial_appearance_blendMode b)\<rparr>"

text \<open>
  \<^verbatim>\<open>
  border: {
    ...state.border,
    ...(bpState.border || {}),
    radius: { ...state.border.radius, ...(bpState.border?.radius || {}) }
  }
  \<close>
  The explicit \<open>radius\<close> key comes last, so the radius that the spread of
  \<open>bpState.border\<close> carries is replaced by the merged one.
\<close>

definition spread_border :: "Border \<Rightarrow> PartialBorder option \<Rightarrow> Border" where
  "spread_border a b =
     (let b' = or_empty b empty_border
      in \<lparr>border_width = spread (border_width a) (partial_border_width b'),
          border_style = spread (border_style a) (partial_border_style b'),
          border_color = spread (border_color a) (partial_border_color b'),
          border_radius =
            spread_radius (border_radius a)
              (or_empty (case b of None \<Rightarrow> None | Some v \<Rightarrow> partial_border_radius v)
                 empty_radius)\<rparr>)"

text \<open>
  \<^verbatim>\<open>
  const getEffectiveState = useCallback((bp: Breakpoint): InspectorState => {
    const bpState = breakpointStates[bp];
    return {
      ...state,
      ...bpState,
      padding: { ...state.padding, ...(bpState.padding || {}) },
      ...
    };
  }, [state, breakpointStates]);
  \<close>
  The six keys that are not groups come from the two top-level spreads; each of the ten
  groups is written explicitly after them.
\<close>

definition getEffectiveState :: "Store \<Rightarrow> Breakpoint \<Rightarrow> InspectorState" where
  "getEffectiveState st bp =
     (let s = state st; bpState = breakpointStates st bp
      in \<lparr>tag = spread (tag s) (partial_tag bpState),
          elementId = spread (elementId s) (partial_elementId bpState),
          textContent = spread (textContent s) (partial_textContent bpState),
          link = spread (link s) (partial_link bpState),
          inlineCSS = spread (inlineCSS s) (partial_inlineCSS bpState),
          tailwindClasses = spread (tailwindClasses s) (partial_tailwindClasses bpState),
          padding = spread_padding (padding s) (or_empty (partial_padding bpState) empty_padding),
          margin = spread_margin (margin s) (or_empty (partial_margin bpState) empty_margin),
          position =
            spread_position (position s) (or_empty (partial_position bpState) empty_position),
          size_box = spread_size (size_box s) (or_empty (partial_size bpState) empty_size),
          typography =
            spread_typography (typography s)
              (or_empty (partial_typography bpState) empty_typography),
          transforms =
            spread_transforms (transforms s)
              (or_empty (partial_transforms bpState) empty_transforms),
          transforms3D =
            spread_transforms3D (transforms3D s)
              (or_empty (partial_transforms3D bpState) empty_transforms3D),
          border = spread_border (border s) (partial_border bpState),
          effects = spread_effects (effects s) (or_empty (partial_effects bpState) empty_effects),
          appearance =
            spread_appearance (appearance s)
              (or_empty (partial_appearance bpState) empty_appearance)\<rparr>)"

text \<open>
  \<^verbatim>\<open>
  const clearBreakpointOverrides = useCallback((bp: Breakpoint) => {
    if (bp !== 'base') {
      setBreakpointStates(prev => ({ ...prev, [bp]: {} }));
    }
  }, []);
  \<close>
\<close>

definition clearBreakpointOverrides :: "Breakpoint \<Rightarrow> Store \<Rightarrow> Store" where
  "clearBreakpointOverrides bp st =
     (if bp \<noteq> Base
      then st\<lparr>breakpointStates := (breakpointStates st)(bp := empty_state)\<rparr>
      else st)"

text \<open>\<open>hasBreakpointOverrides\<close>: \<open>Object.keys(breakpointStates[bp] || {}).length > 0\<close>.\<close>

definition hasBreakpointOverrides :: "Store \<Rightarrow> Breakpoint \<Rightarrow> bool" where
  "hasBreakpointOverrides st bp = (keys_length (breakpointStates st bp) > 0)"

section \<open>Class Generator\<close>

fun breakpoint_name :: "Breakpoint \<Rightarrow> string" where
  "breakpoint_name Base = ''base''"
| "breakpoint_name Sm = ''sm''"
| "breakpoint_name Md = ''md''"
| "breakpoint_name Lg = ''lg''"
| "breakpoint_name Xl = ''xl''"
| "breakpoint_name XXl = ''2xl''"

fun position_type_name :: "PositionType \<Rightarrow> string" where
  "position_type_name Static = ''static''"
| "position_type_name Relative = ''relative''"
| "position_type_name Absolute = ''absolute''"
| "position_type_name Fixed = ''fixed''"
| "position_type_name Sticky = ''sticky''"

text \<open>\<open>const prefix = breakpoint === 'base' ? '' : `${breakpoint}:`\<close>.\<close>

definition breakpoint_prefix :: "Breakpoint \<Rightarrow> string" where
  "breakpoint_prefix bp = (if bp = Base then [] else breakpoint_name bp @ '':'')"

text \<open>\<open>if (c) classes.push(tok)\<close>, as the list of what the statement pushes.\<close>

definition emit :: "bool \<Rightarrow> string \<Rightarrow> string list" where
  "emit c tok = (if c then [tok] else [])"

text \<open>
  The body of \<open>useGeneratedClasses\<close>, one definition per commented group of the source,
  in the order of the source.
  \<^verbatim>\<open>
  const paddingL = normalizeNumericValue(state.padding.l);
  ...
  if (paddingL && paddingL !== '0') classes.push(`${prefix}pl-[${paddingL}px]`);
  \<close>
\<close>

definition padding_classes :: "string \<Rightarrow> Padding \<Rightarrow> string list" where
  "padding_classes pfx p =
     (let paddingL = normalizeNumericValue (JString (padding_l p));
          paddingT = normalizeNumericValue (JString (padding_t p));
          paddingR = normalizeNumericValue (JString (padding_r p));
          paddingB = normalizeNumericValue (JString (padding_b p))
      in emit (paddingL \<noteq> [] \<and> paddingL \<noteq> ''0'') (pfx @ ''pl-['' @ paddingL @ ''px]'') @
         emit (paddingT \<noteq> [] \<and> paddingT \<noteq> ''0'') (pfx @ ''pt-['' @ paddingT @ ''px]'') @
         emit (paddingR \<noteq> [] \<and> paddingR \<noteq> ''0'') (pfx @ ''pr-['' @ paddingR @ ''px]'') @
         emit (paddingB \<noteq> [] \<and> paddingB \<noteq> ''0'') (pfx @ ''pb-['' @ paddingB @ ''px]''))"

definition margin_classes :: "string \<Rightarrow> Margin \<Rightarrow> string list" where
  "margin_classes pfx m =
     (let marginX = normalizeNumericValue (JString (margin_x m));
          marginY = normalizeNumericValue (JString (margin_y m))
      in emit (marginX \<noteq> [] \<and> marginX \<noteq> ''0'') (pfx @ ''mx-['' @ marginX @ ''px]'') @
         emit (marginY \<noteq> [] \<and> marginY \<noteq> ''0'') (pfx @ ''my-['' @ marginY @ ''px]''))"

definition position_classes :: "string \<Rightarrow> Position \<Rightarrow> string list" where
  "position_classes pfx p =
     emit (position_type p \<noteq> Static) (pfx @ position_type_name (position_type p)) @
     emit (position_zIndex p \<noteq> [])
       (pfx @ ''z-['' @ normalizeNumericValue (JString (position_zIndex p)) @ '']'') @
     emit (position_l p \<noteq> [])
       (pfx @ ''left-['' @ normalizeNumericValue (JString (position_l p)) @ ''px]'') @
     emit (position_t p \<noteq> [])
       (pfx @ ''top-['' @ normalizeNumericValue (JString (position_t p)) @ ''px]'') @
     emit (position_r p \<noteq> [])
       (pfx @ ''right-['' @ normalizeNumericValue (JString (position_r p)) @ ''px]'') @
     emit (position_b p \<noteq> [])
       (pfx @ ''bottom-['' @ normalizeNumericValue (JString (position_b p)) @ ''px]'')"

text \<open>
  \<^verbatim>\<open>
  if (state.size.width) classes.push(`${prefix}w-[${state.size.width}]`);
  \<close>
\<close>

definition size_classes :: "string \<Rightarrow> Size \<Rightarrow> string list" where
  "size_classes pfx z =
     emit (size_width z \<noteq> []) (pfx @ ''w-['' @ size_width z @ '']'') @
     emit (size_height z \<noteq> []) (pfx @ ''h-['' @ size_height z @ '']'') @
     emit (size_maxWidth z \<noteq> []) (pfx @ ''max-w-['' @ size_maxWidth z @ '']'') @
     emit (size_maxHeight z \<noteq> []) (pfx @ ''max-h-['' @ size_maxHeight z @ '']'') @
     emit (size_minWidth z \<noteq> []) (pfx @ ''min-w-['' @ size_minWidth z @ '']'') @
     emit (size_minHeight z \<noteq> []) (pfx @ ''min-h-['' @ size_minHeight z @ '']'')"

definition typography_classes :: "string \<Rightarrow> Typography \<Rightarrow> string list" where
  "typography_classes pfx t =
     emit (typography_fontFamily t \<noteq> ''inter'') (pfx @ ''font-'' @ typography_fontFamily t) @
     emit (typography_fontWeight t \<noteq> ''normal'') (pfx @ ''font-'' @ typography_fontWeight t) @
     emit (typography_fontSize t \<noteq> []) (pfx @ ''text-['' @ typography_fontSize t @ '']'') @
     emit (typography_letterSpacing t \<noteq> ''normal'')
       (pfx @ ''tracking-'' @ typography_letterSpacing t) @
     emit (typography_lineHeight t \<noteq> [])
       (pfx @ ''leading-['' @ typography_lineHeight t @ '']'') @
     emit (typography_textAlign t \<noteq> ''left'') (pfx @ ''text-'' @ typography_textAlign t)"

definition transforms_classes :: "string \<Rightarrow> Transforms \<Rightarrow> string list" where
  "transforms_classes pfx t =
     emit (transforms_rotate t \<noteq> 0)
       (pfx @ ''rotate-['' @ show_int (transforms_rotate t) @ ''deg]'') @
     emit (transforms_scale t \<noteq> 100)
       (pfx @ ''scale-['' @ show_div100 (transforms_scale t) @ '']'') @
     emit (transforms_translateX t \<noteq> 0)
       (pfx @ ''translate-x-['' @ show_int (transforms_translateX t) @ ''px]'') @
     emit (transforms_translateY t \<noteq> 0)
       (pfx @ ''translate-y-['' @ show_int (transforms_translateY t) @ ''px]'') @
     emit (transforms_skewX t \<noteq> 0)
       (pfx @ ''skew-x-['' @ show_int (transforms_skewX t) @ ''deg]'') @
     emit (transforms_skewY t \<noteq> 0)
       (pfx @ ''skew-y-['' @ show_int (transforms_skewY t) @ ''deg]'')"

definition effects_classes :: "string \<Rightarrow> Effects \<Rightarrow> string list" where
  "effects_classes pfx e =
     emit (effects_opacity e \<noteq> 100)
       (pfx @ ''opacity-['' @ show_div100 (effects_opacity e) @ '']'') @
     emit (effects_blur e > 0) (pfx @ ''blur-['' @ show_int (effects_blur e) @ ''px]'') @
     emit (effects_backdropBlur e > 0)
       (pfx @ ''backdrop-blur-['' @ show_int (effects_backdropBlur e) @ ''px]'') @
     emit (effects_hueRotate e \<noteq> 0)
       (pfx @ ''hue-rotate-['' @ show_int (effects_hueRotate e) @ ''deg]'') @
     emit (effects_saturation e \<noteq> 100)
       (pfx @ ''saturate-['' @ show_div100 (effects_saturation e) @ '']'') @
     emit (effects_brightness e \<noteq> 100)
       (pfx @ ''brightness-['' @ show_div100 (effects_brightness e) @ '']'') @
     emit (effects_contrast e \<noteq> 100)
       (pfx @ ''contrast-['' @ show_div100 (effects_contrast e) @ '']'') @
     emit (effects_grayscale e > 0)
       (pfx @ ''grayscale-['' @ show_div100 (effects_grayscale e) @ '']'') @
     emit (effects_invert e > 0)
       (pfx @ ''invert-['' @ show_div100 (effects_invert e) @ '']'') @
     emit (effects_sepia e > 0)
       (pfx @ ''sepia-['' @ show_div100 (effects_sepia e) @ '']'') @
     emit (effects_shadow e \<noteq> ''none'') (pfx @ ''shadow-'' @ effects_shadow e)"

definition border_classes :: "string \<Rightarrow> Border \<Rightarrow> string list" where
  "border_classes pfx b =
     emit (radius_all (border_radius b) > 0)
       (pfx @ ''rounded-['' @ show_int (radius_all (border_radius b)) @ ''px]'') @
     emit (border_width b \<noteq> [] \<and> border_width b \<noteq> ''0'')
       (pfx @ ''border-['' @ normalizeNumericValue (JString (border_width b)) @ ''px]'') @
     emit (border_style b \<noteq> ''solid'' \<and> border_style b \<noteq> ''none'')
       (pfx @ ''border-'' @ border_style b)"

text \<open>Everything the generator derives from the fields, before the user's own classes.\<close>

definition property_classes :: "string \<Rightarrow> InspectorState \<Rightarrow> string list" where
  "property_classes pfx s =
     padding_classes pfx (padding s) @ margin_classes pfx (margin s) @
     position_classes pfx (position s) @ size_classes pfx (size_box s) @
     typography_classes pfx (typography s) @ transforms_classes pfx (transforms s) @
     effects_classes pfx (effects s) @ border_classes pfx (border s)"

text \<open>
  \<^verbatim>\<open>
  classes.push(...state.tailwindClasses);
  return classes.filter(Boolean).join(' ');
  \<close>
  \<open>generated_class_list\<close> is the array that is joined.
\<close>

definition generated_class_list :: "InspectorState \<Rightarrow> Breakpoint \<Rightarrow> string list" where
  "generated_class_list s bp =
     filter_Boolean (property_classes (breakpoint_prefix bp) s @ tailwindClasses s)"

definition useGeneratedClasses :: "InspectorState \<Rightarrow> Breakpoint \<Rightarrow> string" where
  "useGeneratedClasses s bp = join '' '' (generated_class_list s bp)"

section \<open>Token Classifier and \<open>getTailwindClass\<close>\<close>

definition spacingTokens :: "string list" where
  "spacingTokens = [''0'', ''1'', ''2'', ''3'', ''4'', ''6'', ''8'', ''10'', ''12'', ''14'',
     ''16'', ''20'', ''24'', ''28'', ''32'', ''36'', ''40'', ''44'', ''48'', ''52'', ''56'',
     ''60'', ''64'', ''72'', ''80'', ''96'']"

definition opacityTokens :: "string list" where
  "opacityTokens = [''0'', ''5'', ''10'', ''20'', ''25'', ''30'', ''40'', ''50'', ''60'',
     ''70'', ''75'', ''80'', ''90'', ''95'', ''100'']"

text \<open>
  \<^verbatim>\<open>
  function isTailwindToken(property: string, value: string): boolean {
    const numValue = normalizeNumericValue(value);
    if (property.startsWith('opacity-')) return opacityTokens.includes(numValue);
    if (property.startsWith('p-') || property.startsWith('m-') || property.startsWith('gap-'))
      return spacingTokens.includes(numValue);
    return false;
  }
  \<close>
\<close>

definition isTailwindToken :: "string \<Rightarrow> string \<Rightarrow> bool" where
  "isTailwindToken property v =
     (let numValue = normalizeNumericValue (JString v)
      in if prefix ''opacity-'' property then numValue \<in> set opacityTokens
         else if prefix ''p-'' property \<or> prefix ''m-'' property \<or> prefix ''gap-'' property
         then numValue \<in> set spacingTokens
         else False)"

text \<open>
  \<open>getTailwindClass\<close> of the utility module. Its opacity branch formats
  \<open>(Number(numValue) / 100).toFixed(2)\<close>, a floating-point rendering that this embedding
  does not define: it is the parameter \<open>toFixed2\<close>, applied to \<open>numValue\<close>.
\<close>

definition getTailwindClass ::
    "(string \<Rightarrow> string) \<Rightarrow> string \<Rightarrow> jsvalue \<Rightarrow> Breakpoint \<Rightarrow> string" where
  "getTailwindClass toFixed2 property v bp =
     (if falsy v \<or> v = JString ''0'' then []
      else let pfx = breakpoint_prefix bp;
               numValue = normalizeNumericValue (JString (js_String v))
           in if prefix ''p-'' property \<or> prefix ''m-'' property then
                (if isTailwindToken property numValue then pfx @ property @ ''-'' @ numValue
                 else pfx @ property @ ''-['' @ numValue @ ''px]'')
              else if prefix ''gap-'' property then
                (if isTailwindToken ''gap-'' numValue then pfx @ property @ ''-'' @ numValue
                 else pfx @ property @ ''-['' @ numValue @ ''px]'')
              else if prefix ''opacity-'' property then
                (if isTailwindToken property numValue then pfx @ property @ ''-'' @ numValue
                 else pfx @ property @ ''-['' @ toFixed2 numValue @ '']'')
              else if prefix ''left-'' property \<or> prefix ''top-'' property \<or>
                      prefix ''right-'' property \<or> prefix ''bottom-'' property \<or>
                      prefix ''w-'' property \<or> prefix ''h-'' property \<or>
                      prefix ''max-w-'' property \<or> prefix ''max-h-'' property \<or>
                      prefix ''min-w-'' property \<or> prefix ''min-h-'' property
              then pfx @ property @ ''-['' @ numValue @ ''px]''
              else pfx @ property)"

section \<open>Multi-Breakpoint Aggregator\<close>

text \<open>\<open>[...new Set(xs)]\<close>: the first occurrence of every element, in insertion order.\<close>

fun set_insert :: "'a list \<Rightarrow> 'a \<Rightarrow> 'a list" where
  "set_insert seen x = (if x \<in> set seen then seen else seen @ [x])"

definition Set_to_list :: "'a list \<Rightarrow> 'a list" where
  "Set_to_list xs = foldl set_insert [] xs"

definition breakpoints :: "Breakpoint list" where
  "breakpoints = [Base, Sm, Md, Lg, Xl, XXl]"

text \<open>
  \<^verbatim>\<open>
  breakpoints.forEach(bp => {
    if (bp === 'base' || Object.keys(breakpointStates[bp] || {}).length > 0) {
      const effectiveState = getEffectiveState(bp);
      const prefix = bp === 'base' ? '' : `${bp}:`;
      // Generate classes for this breakpoint (simplified - reuse logic from useGeneratedClasses)
      if (effectiveState.padding.l && effectiveState.padding.l !== '0')
        allClasses.push(`${prefix}pl-${effectiveState.padding.l}`);
      // ... add more as needed
    }
  });
  return [...new Set(allClasses)].join(' ');
  \<close>
  The hook receives the base state, the override records and \<open>getEffectiveState\<close> of
  \<open>useInspectorState\<close>; here they are the store.
\<close>

definition breakpoint_classes :: "Store \<Rightarrow> Breakpoint \<Rightarrow> string list" where
  "breakpoint_classes st bp =
     (if bp = Base \<or> keys_length (breakpointStates st bp) > 0
      then let effectiveState = getEffectiveState st bp;
               pfx = breakpoint_prefix bp
           in emit (padding_l (padding effectiveState) \<noteq> [] \<and>
                    padding_l (padding effectiveState) \<noteq> ''0'')
                (pfx @ ''pl-'' @ padding_l (padding effectiveState))
      else [])"

definition useAllBreakpointClasses :: "Store \<Rightarrow> string" where
  "useAllBreakpointClasses st =
     join '' '' (Set_to_list (concat (map (breakpoint_classes st) breakpoints)))"

text \<open>
  The specification's wording of the aggregator: the Class Generator's whole output for
  every breakpoint that is \<open>base\<close> or has overrides, deduplicated and joined.
\<close>

definition spec_generateAllClasses :: "Store \<Rightarrow> string" where
  "spec_generateAllClasses st =
     join '' '' (Set_to_list (concat (map
       (\<lambda>bp. if bp = Base \<or> keys_length (breakpointStates st bp) > 0
             then generated_class_list (getEffectiveState st bp) bp else [])
       breakpoints)))"

section \<open>Style Generator\<close>

text \<open>
  The style object is a list of keys and values in insertion order;
  \<open>styles[k] = v\<close> is \<^const>\<open>AList.update\<close>, which keeps the place of a key that is
  already there. No statement below depends on the order of the keys.
\<close>

type_synonym styles = "(string \<times> string) list"

definition assign_if :: "bool \<Rightarrow> string \<Rightarrow> string \<Rightarrow> styles \<Rightarrow> styles" where
  "assign_if c k v styles = (if c then AList.update k v styles else styles)"

definition transforms3D_list :: "Transforms3D \<Rightarrow> string list" where
  "transforms3D_list t =
     emit (transforms3D_rotateX t \<noteq> 0) (''rotateX('' @ show_int (transforms3D_rotateX t) @ ''deg)'') @
     emit (transforms3D_rotateY t \<noteq> 0) (''rotateY('' @ show_int (transforms3D_rotateY t) @ ''deg)'') @
     emit (transforms3D_rotateZ t \<noteq> 0) (''rotateZ('' @ show_int (transforms3D_rotateZ t) @ ''deg)'')"

text \<open>The statements of \<open>useGeneratedStyles\<close> before the parse of \<open>inlineCSS\<close>.\<close>

definition native_styles :: "InspectorState \<Rightarrow> styles" where
  "native_styles s =
     (let s1 = assign_if (typography_textColor (typography s) \<noteq> []) ''color''
                 (typography_textColor (typography s)) [];
          s2 = assign_if (appearance_backgroundColor (appearance s) \<noteq> []) ''backgroundColor''
                 (appearance_backgroundColor (appearance s)) s1;
          s3 = assign_if (border_color (border s) \<noteq> []) ''borderColor''
                 (border_color (border s)) s2;
          t3d = transforms3D_list (transforms3D s);
          s4 = assign_if (length t3d > 0) ''transform'' (join '' '' t3d) s3;
          s5 = assign_if (transforms3D_perspective (transforms3D s) > 0) ''perspective''
                 (show_int (transforms3D_perspective (transforms3D s) * 100) @ ''px'') s4;
          s6 = assign_if (appearance_blendMode (appearance s) \<noteq> ''normal'') ''mixBlendMode''
                 (appearance_blendMode (appearance s)) s5
      in assign_if (appearance_backgroundImage (appearance s) \<noteq> []) ''backgroundImage''
           (''url('' @ appearance_backgroundImage (appearance s) @ '')'') s6)"

definition is_lower :: "char \<Rightarrow> bool" where
  "is_lower c = (c \<in> set ''abcdefghijklmnopqrstuvwxyz'')"

definition toUpperCase :: "char \<Rightarrow> char" where
  "toUpperCase c = (if is_lower c then char_of (of_char c - (32::nat)) else c)"

text \<open>\<open>prop.replace(/-([a-z])/g, g => g[1].toUpperCase())\<close>.\<close>

fun camelCase :: "string \<Rightarrow> string" where
  "camelCase (c # d # r) =
     (if c = CHR ''-'' \<and> is_lower d then toUpperCase d # camelCase r
      else c # camelCase (d # r))"
| "camelCase r = r"

text \<open>
  \<^verbatim>\<open>
  const [prop, val] = line.split(':').map(s => s.trim());
  if (prop && val) {
    const camelProp = prop.replace(/-([a-z])/g, g => g[1].toUpperCase());
    styles[camelProp] = val;
  }
  \<close>
  The destructuring takes the first two pieces of the split; \<open>val\<close> is undefined when
  there is one piece only.
\<close>

definition parse_line :: "string \<Rightarrow> styles \<Rightarrow> styles" where
  "parse_line line styles =
     (case map trim (split CHR '':'' line) of
        prop # val # _ \<Rightarrow>
          if prop \<noteq> [] \<and> val \<noteq> [] then AList.update (camelCase prop) val styles else styles
      | _ \<Rightarrow> styles)"

text \<open>
  \<^verbatim>\<open>
  if (state.inlineCSS) {
    const cssLines = state.inlineCSS.split(';').filter(Boolean);
    cssLines.forEach(line => { ... });
  }
  return styles;
  \<close>
\<close>

definition useGeneratedStyles :: "InspectorState \<Rightarrow> styles" where
  "useGeneratedStyles s =
     (if inlineCSS s \<noteq> []
      then fold parse_line (filter_Boolean (split CHR '';'' (inlineCSS s))) (native_styles s)
      else native_styles s)"

section \<open>A state of neutral values\<close>

text \<open>
  The constant \<open>DEFAULT_INSPECTOR_STATE\<close> (\<open>./constants\<close>) is not among the sources and
  none of the functions modelled here reads it. The concrete inputs start from this state, which
  holds in every field the value that the generators skip.
\<close>

definition neutral_state :: InspectorState where
  "neutral_state =
     \<lparr>tag = ''div'', elementId = [], textContent = [], link = [], inlineCSS = [],
      tailwindClasses = [],
      padding = \<lparr>padding_l = ''0'', padding_t = ''0'', padding_r = ''0'', padding_b = ''0''\<rparr>,
      margin = \<lparr>margin_x = ''0'', margin_y = ''0''\<rparr>,
      position = \<lparr>position_type = Static, position_zIndex = [], position_l = [],
        position_t = [], position_r = [], position_b = []\<rparr>,
      size_box = \<lparr>size_width = [], size_height = [], size_maxWidth = [],
        size_maxHeight = [], size_minWidth = [], size_minHeight = []\<rparr>,
      typography = \<lparr>typography_fontFamily = ''inter'', typography_fontWeight = ''normal'',
        typography_fontSize = [], typography_letterSpacing = ''normal'',
        typography_lineHeight = [], typography_textAlign = ''left'',
        typography_textColor = []\<rparr>,
      transforms = \<lparr>transforms_rotate = 0, transforms_scale = 100, transforms_translateX = 0,
        transforms_translateY = 0, transforms_skewX = 0, transforms_skewY = 0\<rparr>,
      transforms3D = \<lparr>transforms3D_rotateX = 0, transforms3D_rotateY = 0,
        transforms3D_rotateZ = 0, transforms3D_perspective = 0\<rparr>,
      border = \<lparr>border_width = ''0'', border_style = ''solid'', border_color = [],
        border_radius = \<lparr>radius_all = 0, radius_tl = 0, radius_tr = 0, radius_br = 0,
          radius_bl = 0\<rparr>\<rparr>,
      effects = \<lparr>effects_opacity = 100, effects_blur = 0, effects_backdropBlur = 0,
        effects_hueRotate = 0, effects_saturation = 100, effects_brightness = 100,
        effects_contrast = 100, effects_grayscale = 0, effects_invert = 0, effects_sepia = 0,
        effects_shadow = ''none''\<rparr>,
      appearance = \<lparr>appearance_backgroundColor = [], appearance_backgroundImage = [],
        appearance_blendMode = ''normal''\<rparr>\<rparr>"

text \<open>The store as \<open>useInspectorState\<close> creates it: no overrides, breakpoint \<open>base\<close>.\<close>

definition initial_store :: "InspectorState \<Rightarrow> Store" where
  "initial_store s =
     \<lparr>state = s, breakpointStates = (\<lambda>bp. empty_state), currentBreakpoint = Base\<rparr>"

section \<open>Concrete inputs\<close>

text \<open>The override object \<open>{padding: {l: v}}\<close>.\<close>

definition padding_l_override :: "string \<Rightarrow> PartialInspectorState" where
  "padding_l_override v =
     empty_state\<lparr>partial_padding := Some (empty_padding\<lparr>partial_padding_l := Some v\<rparr>)\<rparr>"

text \<open>
  A store with the override \<open>{padding: {l: '8'}}\<close> at \<open>md\<close> and \<open>{tag: 'span'}\<close> at
  \<open>lg\<close>, over the neutral base state.
\<close>

definition sample_store :: Store where
  "sample_store =
     \<lparr>state = neutral_state,
      breakpointStates = (\<lambda>bp. empty_state)(Md := padding_l_override ''8'',
         Lg := empty_state\<lparr>partial_tag := Some ''span''\<rparr>),
      currentBreakpoint = Md\<rparr>"

definition padding16_state :: InspectorState where
  "padding16_state = neutral_state\<lparr>padding :=
     \<lparr>padding_l = ''16'', padding_t = ''16'', padding_r = ''16'', padding_b = ''16''\<rparr>\<rparr>"

definition padding16px_state :: InspectorState where
  "padding16px_state = neutral_state\<lparr>padding :=
     \<lparr>padding_l = ''16px'', padding_t = ''16px'', padding_r = ''16px'', padding_b = ''16px''\<rparr>\<rparr>"

definition padding4_state :: InspectorState where
  "padding4_state = neutral_state\<lparr>padding :=
     (padding neutral_state)\<lparr>padding_l := ''4''\<rparr>\<rparr>"

definition user_class_state :: InspectorState where
  "user_class_state = neutral_state\<lparr>tailwindClasses := [''w-[16pxpx]'']\<rparr>"

definition width320_state :: InspectorState where
  "width320_state = neutral_state\<lparr>size_box :=
     (size_box neutral_state)\<lparr>size_width := ''320''\<rparr>\<rparr>"

definition inline_url_state :: InspectorState where
  "inline_url_state =
     neutral_state\<lparr>inlineCSS := ''background-image: url(https://x)''\<rparr>"

definition plus16px_state :: InspectorState where
  "plus16px_state = neutral_state\<lparr>padding :=
     (padding neutral_state)\<lparr>padding_l := ''+16px''\<rparr>\<rparr>"

definition height_pxpx_state :: InspectorState where
  "height_pxpx_state = neutral_state\<lparr>size_box :=
     (size_box neutral_state)\<lparr>size_height := ''16pxpx''\<rparr>\<rparr>"

definition mixed_state :: InspectorState where
  "mixed_state = padding16px_state
     \<lparr>margin := \<lparr>margin_x = ''auto'', margin_y = ''0''\<rparr>,
      size_box := (size_box neutral_state)\<lparr>size_width := ''320px''\<rparr>,
      tailwindClasses := [''flex'']\<rparr>"

definition top0_state :: InspectorState where
  "top0_state = neutral_state\<lparr>position :=
     (position neutral_state)\<lparr>position_t := ''0''\<rparr>\<rparr>"

definition lineHeight_normal_state :: InspectorState where
  "lineHeight_normal_state = neutral_state\<lparr>typography :=
     (typography neutral_state)\<lparr>typography_lineHeight := ''normal''\<rparr>\<rparr>"

definition sparse_state :: InspectorState where
  "sparse_state = padding16_state
     \<lparr>inlineCSS := ''color: red'',
      transforms3D := (transforms3D neutral_state)\<lparr>transforms3D_rotateX := 10\<rparr>\<rparr>"

section \<open>Vocabulary of the statements\<close>

text \<open>
  The stored values that the generator normalizes before it appends a unit or a bracket:
  padding, margin, z-index, the position offsets and the border width.
\<close>

definition spacing_values :: "InspectorState \<Rightarrow> string list" where
  "spacing_values s =
     [padding_l (padding s), padding_t (padding s), padding_r (padding s),
      padding_b (padding s), margin_x (margin s), margin_y (margin s),
      position_zIndex (position s), position_l (position s), position_t (position s),
      position_r (position s), position_b (position s), border_width (border s)]"

text \<open>
  The stored strings that the generator copies into a class as they are: the size
  fields, the typography and shadow strings, the border style, and the user's classes.
\<close>

definition verbatim_strings :: "InspectorState \<Rightarrow> string list" where
  "verbatim_strings s =
     [size_width (size_box s), size_height (size_box s), size_maxWidth (size_box s),
      size_maxHeight (size_box s), size_minWidth (size_box s), size_minHeight (size_box s),
      typography_fontFamily (typography s), typography_fontWeight (typography s),
      typography_fontSize (typography s), typography_letterSpacing (typography s),
      typography_lineHeight (typography s), typography_textAlign (typography s),
      effects_shadow (effects s), border_style (border s)] @ tailwindClasses s"

text \<open>
  A spacing value is harmless for the substring \<open>16pxpx\<close> when normalization strips its
  unit (it is blank or starts with its number) or when it does not contain \<open>16px\<close>.
\<close>

definition unit_stripped :: "string \<Rightarrow> bool" where
  "unit_stripped v = (starts_numeric v \<or> \<not> sublist ''16px'' v)"

text \<open>\<open>listed c x\<close> is the list of \<open>x\<close> when \<open>c\<close> holds and the empty list otherwise.\<close>

definition listed :: "bool \<Rightarrow> 'a \<Rightarrow> 'a list" where
  "listed c x = (if c then [x] else [])"

text \<open>
  The value of a padding or margin field at which the generator is silent: its normalized
  form is empty or \<open>0\<close>.
\<close>

definition spacing_silent :: "string \<Rightarrow> bool" where
  "spacing_silent v =
     (normalizeNumericValue (JString v) = [] \<or> normalizeNumericValue (JString v) = ''0'')"

text \<open>
  For a state, the class prefixes of the fields that hold the value at which the guard of
  the field skips the class: one row per field, in the order of the generator. The two
  \<open>font-\<close> classes share their prefix, and so do \<open>text-[\<close> with \<open>text-\<close> and
  \<open>border-[\<close> with \<open>border-\<close>; their rows say when no class of the shared prefix is due.
\<close>

definition silent_prefixes :: "InspectorState \<Rightarrow> string list" where
  "silent_prefixes s =
     listed (spacing_silent (padding_l (padding s))) ''pl-['' @
     listed (spacing_silent (padding_t (padding s))) ''pt-['' @
     listed (spacing_silent (padding_r (padding s))) ''pr-['' @
     listed (spacing_silent (padding_b (padding s))) ''pb-['' @
     listed (spacing_silent (margin_x (margin s))) ''mx-['' @
     listed (spacing_silent (margin_y (margin s))) ''my-['' @
     listed (position_type (position s) = Static) ''static'' @
     listed (position_zIndex (position s) = []) ''z-['' @
     listed (position_l (position s) = []) ''left-['' @
     listed (position_t (position s) = []) ''top-['' @
     listed (position_r (position s) = []) ''right-['' @
     listed (position_b (position s) = []) ''bottom-['' @
     listed (size_width (size_box s) = []) ''w-['' @
     listed (size_height (size_box s) = []) ''h-['' @
     listed (size_maxWidth (size_box s) = []) ''max-w-['' @
     listed (size_maxHeight (size_box s) = []) ''max-h-['' @
     listed (size_minWidth (size_box s) = []) ''min-w-['' @
     listed (size_minHeight (size_box s) = []) ''min-h-['' @
     listed (typography_fontFamily (typography s) = ''inter'' \<and>
             typography_fontWeight (typography s) = ''normal'') ''font-'' @
     listed (typography_fontSize (typography s) = [] \<and>
             typography_textAlign (typography s) = ''left'') ''text-'' @
     listed (typography_fontSize (typography s) = [] \<and>
             \<not> prefix ''['' (typography_textAlign (typography s))) ''text-['' @
     listed (typography_letterSpacing (typography s) = ''normal'') ''tracking-'' @
     listed (typography_lineHeight (typography s) = []) ''leading-['' @
     listed (transforms_rotate (transforms s) = 0) ''rotate-['' @
     listed (transforms_scale (transforms s) = 100) ''scale-['' @
     listed (transforms_translateX (transforms s) = 0) ''translate-x-['' @
     listed (transforms_translateY (transforms s) = 0) ''translate-y-['' @
     listed (transforms_skewX (transforms s) = 0) ''skew-x-['' @
     listed (transforms_skewY (transforms s) = 0) ''skew-y-['' @
     listed (effects_opacity (effects s) = 100) ''opacity-['' @
     listed (effects_blur (effects s) \<le> 0) ''blur-['' @
     listed (effects_backdropBlur (effects s) \<le> 0) ''backdrop-blur-['' @
     listed (effects_hueRotate (effects s) = 0) ''hue-rotate-['' @
     listed (effects_saturation (effects s) = 100) ''saturate-['' @
     listed (effects_brightness (effects s) = 100) ''brightness-['' @
     listed (effects_contrast (effects s) = 100) ''contrast-['' @
     listed (effects_grayscale (effects s) \<le> 0) ''grayscale-['' @
     listed (effects_invert (effects s) \<le> 0) ''invert-['' @
     listed (effects_sepia (effects s) \<le> 0) ''sepia-['' @
     listed (effects_shadow (effects s) = ''none'') ''shadow-'' @
     listed (radius_all (border_radius (border s)) \<le> 0) ''rounded-['' @
     listed ((border_width (border s) = [] \<or> border_width (border s) = ''0'') \<and>
             (border_style (border s) = ''solid'' \<or> border_style (border s) = ''none''))
       ''border-'' @
     listed ((border_width (border s) = [] \<or> border_width (border s) = ''0'') \<and>
             \<not> prefix ''['' (border_style (border s))) ''border-[''"

text \<open>Classes, in full, of fields that hold the value their guard skips.\<close>

definition silent_classes :: "InspectorState \<Rightarrow> string list" where
  "silent_classes s =
     listed (typography_fontFamily (typography s) = ''inter'' \<and>
             typography_fontWeight (typography s) \<noteq> ''inter'') ''font-inter'' @
     listed (typography_fontWeight (typography s) = ''normal'' \<and>
             typography_fontFamily (typography s) \<noteq> ''normal'') ''font-normal'' @
     listed (typography_textAlign (typography s) = ''left'') ''text-left'' @
     listed (border_style (border s) = ''solid'') ''border-solid'' @
     listed (border_style (border s) = ''none'') ''border-none''"

text \<open>
  The style properties that the Style Generator does not set from the fields of a state:
  \<open>position\<close> and \<open>opacity\<close>, which it never sets, and the property of every field that
  holds the value its guard skips.
\<close>

definition silent_style_keys :: "InspectorState \<Rightarrow> string list" where
  "silent_style_keys s =
     [''position'', ''opacity''] @
     listed (typography_textColor (typography s) = []) ''color'' @
     listed (appearance_backgroundColor (appearance s) = []) ''backgroundColor'' @
     listed (border_color (border s) = []) ''borderColor'' @
     listed (transforms3D_rotateX (transforms3D s) = 0 \<and>
             transforms3D_rotateY (transforms3D s) = 0 \<and>
             transforms3D_rotateZ (transforms3D s) = 0) ''transform'' @
     listed (transforms3D_perspective (transforms3D s) \<le> 0) ''perspective'' @
     listed (appearance_blendMode (appearance s) = ''normal'') ''mixBlendMode'' @
     listed (appearance_backgroundImage (appearance s) = []) ''backgroundImage''"

text \<open>The components of the \<open>transform\<close> string whose rotation is zero.\<close>

definition silent_rotations :: "Transforms3D \<Rightarrow> string list" where
  "silent_rotations t =
     listed (transforms3D_rotateX t = 0) ''rotateX('' @
     listed (transforms3D_rotateY t = 0) ''rotateY('' @
     listed (transforms3D_rotateZ t = 0) ''rotateZ(''"

text \<open>What the parse of the \<open>inlineCSS\<close> text alone puts into the style object.\<close>

definition inline_styles :: "string \<Rightarrow> styles" where
  "inline_styles css =
     (if css \<noteq> [] then fold parse_line (filter_Boolean (split CHR '';'' css)) [] else [])"

section \<open>Properties of the Value Normalizer\<close>

lemma white_space_ends:
  "w \<in> set white_space \<Longrightarrow> w \<noteq> [] \<and> \<not> numeric_char (hd w) \<and> \<not> numeric_char (last w)"
  by (auto simp: white_space_def numeric_char_def is_digit_def)

lemma strip_fixed:
  assumes "\<And>w. w \<in> set ws \<Longrightarrow> w \<noteq> [] \<Longrightarrow> \<not> prefix w s"
  shows "strip ws s = s"
proof -
  have "find (\<lambda>w. w \<noteq> [] \<and> prefix w s) ws = None"
    using assms by (auto simp: find_None_iff)
  then show ?thesis by (subst strip.simps) simp
qed

lemma strip_clean: "w \<in> set ws \<Longrightarrow> w \<noteq> [] \<Longrightarrow> \<not> prefix w (strip ws s)"
proof (induction ws s rule: strip.induct)
  case (1 ws s)
  show ?case
  proof (cases "find (\<lambda>w. w \<noteq> [] \<and> prefix w s) ws")
    case None
    then have "strip ws s = s" by (subst strip.simps) simp
    with None "1.prems" show ?thesis by (auto simp: find_None_iff)
  next
    case (Some v)
    then have "strip ws s = strip ws (drop (length v) s)" by (subst strip.simps) simp
    with "1.IH" [OF Some] "1.prems" show ?thesis by simp
  qed
qed

lemma strip_suffix: "suffix (strip ws s) s"
proof (induction ws s rule: strip.induct)
  case (1 ws s)
  show ?case
  proof (cases "find (\<lambda>w. w \<noteq> [] \<and> prefix w s) ws")
    case None
    then show ?thesis by (subst strip.simps) simp
  next
    case (Some v)
    then have "strip ws s = strip ws (drop (length v) s)" by (subst strip.simps) simp
    with "1.IH" [OF Some] show ?thesis
      by (metis suffix_drop suffix_order.trans)
  qed
qed

text \<open>A string that neither starts nor ends with white space.\<close>

lemma trim_fixed:
  assumes "\<And>w. w \<in> set white_space \<Longrightarrow> \<not> prefix w s"
    and "\<And>w. w \<in> set white_space \<Longrightarrow> \<not> suffix w s"
  shows "trim s = s"
proof -
  have "trimStart s = s"
    unfolding trimStart_def using assms(1) by (intro strip_fixed) auto
  moreover have "strip (map rev white_space) (rev s) = rev s"
    using assms(2) by (intro strip_fixed) (auto simp: suffix_to_prefix)
  ultimately show ?thesis by (simp add: trim_def trimEnd_def)
qed

lemma trim_clean:
  assumes "w \<in> set white_space"
  shows "\<not> prefix w (trim s)" and "\<not> suffix w (trim s)"
proof -
  define t where "t = trimStart s"
  define r where "r = strip (map rev white_space) (rev t)"
  have tr: "trim s = rev r" by (simp add: trim_def trimEnd_def t_def r_def)
  have w: "w \<noteq> []" using assms white_space_ends by blast
  have "suffix r (rev t)" unfolding r_def by (rule strip_suffix)
  then have p: "prefix (rev r) t" by (simp add: suffix_to_prefix)
  have "\<not> prefix w t" unfolding t_def trimStart_def using assms w by (rule strip_clean)
  with p show "\<not> prefix w (trim s)" unfolding tr
    by (meson prefix_order.trans)
  have "\<not> prefix (rev w) r" unfolding r_def using assms w by (intro strip_clean) auto
  then show "\<not> suffix w (trim s)" unfolding tr by (simp add: suffix_to_prefix)
qed

lemma trim_idem: "trim (trim s) = trim s"
  by (rule trim_fixed) (auto dest: trim_clean)

lemma sublist_trim: "sublist (trim s) s"
proof -
  have "suffix (trimStart s) s" unfolding trimStart_def by (rule strip_suffix)
  moreover have "suffix (strip (map rev white_space) (rev (trimStart s))) (rev (trimStart s))"
    by (rule strip_suffix)
  then have "prefix (trim s) (trimStart s)"
    by (simp add: trim_def trimEnd_def suffix_to_prefix)
  ultimately show ?thesis by (auto simp: sublist_altdef')
qed

lemma trim_run:
  assumes "list_all numeric_char r"
  shows "trim r = r"
proof (rule trim_fixed)
  fix w assume w: "w \<in> set white_space"
  show "\<not> prefix w r"
  proof
    assume "prefix w r"
    with w white_space_ends [OF w] have "hd w \<in> set r"
      by (cases w) (auto simp: prefix_def)
    with assms white_space_ends [OF w] show False by (auto simp: list_all_iff)
  qed
  show "\<not> suffix w r"
  proof
    assume "suffix w r"
    with w white_space_ends [OF w] have "last w \<in> set r"
      by (auto simp: suffix_def)
    with assms white_space_ends [OF w] show False by (auto simp: list_all_iff)
  qed
qed

lemma normalizeNumericValue_eq:
  "normalizeNumericValue v =
     (if falsy v then []
      else if trim (js_String v) \<noteq> [] \<and> numeric_char (hd (trim (js_String v)))
      then takeWhile numeric_char (trim (js_String v))
      else trim (js_String v))"
  by (auto simp: normalizeNumericValue_def match_numeric_run_def Let_def takeWhile_eq_Nil_iff)

lemma takeWhile_longest: "prefix p s \<Longrightarrow> list_all P p \<Longrightarrow> prefix p (takeWhile P s)"
  by (auto simp: prefix_def list_all_iff)

lemma list_all_takeWhile: "list_all P (takeWhile P s)"
  by (auto simp: list_all_iff dest: set_takeWhileD)

lemma run_fixed:
  assumes "list_all numeric_char r"
  shows "normalizeNumericValue (JString r) = r"
proof -
  have "trim r = r" using assms by (rule trim_run)
  moreover have "takeWhile numeric_char r = r" using assms by (simp add: list_all_iff)
  ultimately show ?thesis by (auto simp: normalizeNumericValue_eq)
qed

lemma normalizeNumericValue_idem:
  "normalizeNumericValue (JString (normalizeNumericValue v)) = normalizeNumericValue v"
proof -
  let ?s = "trim (js_String v)"
  consider "falsy v" | "\<not> falsy v" "?s \<noteq> []" "numeric_char (hd ?s)"
    | "\<not> falsy v" "?s = [] \<or> \<not> numeric_char (hd ?s)" by blast
  then show ?thesis
  proof cases
    case 1
    then show ?thesis by (simp add: normalizeNumericValue_eq)
  next
    case 2
    then have "normalizeNumericValue v = takeWhile numeric_char ?s"
      by (simp add: normalizeNumericValue_eq)
    then show ?thesis by (simp add: run_fixed list_all_takeWhile)
  next
    case 3
    then have r: "normalizeNumericValue v = ?s" by (auto simp: normalizeNumericValue_eq)
    show ?thesis using 3(2) unfolding r
      by (auto simp: normalizeNumericValue_eq [of "JString ?s"] trim_idem)
  qed
qed

lemma is_digit_numeric: "is_digit c \<Longrightarrow> numeric_char c"
  by (simp add: numeric_char_def)

lemma spec_numeric_literal_chars:
  assumes "spec_numeric_literal lit"
  shows "lit \<noteq> [] \<and> list_all numeric_char lit"
proof -
  define body where "body = (case lit of c # r \<Rightarrow> if c = CHR ''-'' then r else lit | [] \<Rightarrow> lit)"
  define ds where "ds = takeWhile is_digit body"
  define rest where "rest = dropWhile is_digit body"
  have lit: "lit = body \<or> lit = CHR ''-'' # body"
    by (auto simp: body_def split: list.splits)
  have body: "body = ds @ rest"
    by (simp add: ds_def rest_def)
  have ds: "list_all numeric_char ds"
    by (auto simp: ds_def list_all_iff dest!: set_takeWhileD is_digit_numeric)
  have c: "if rest = [] then ds \<noteq> []
     else hd rest = CHR ''.'' \<and> tl rest \<noteq> [] \<and> list_all is_digit (tl rest)"
    using assms unfolding spec_numeric_literal_def Let_def ds_def rest_def body_def .
  have "body \<noteq> [] \<and> list_all numeric_char body"
  proof (cases rest)
    case Nil
    with c ds body show ?thesis by simp
  next
    case (Cons x xs)
    with c have "x = CHR ''.''" and "list_all is_digit xs" by simp_all
    then have "list_all numeric_char rest"
      unfolding Cons by (auto simp: list_all_iff numeric_char_def)
    with ds body Cons show ?thesis by simp
  qed
  with lit show ?thesis by (auto simp: numeric_char_def)
qed

lemma run_of_literal:
  assumes "s = lit @ rest" "list_all numeric_char lit" "rest = [] \<or> \<not> numeric_char (hd rest)"
  shows "takeWhile numeric_char s = lit"
  using assms by (cases rest) (auto simp: list_all_iff)

text \<open>
  C2 (as amended). For a falsy input (null, undefined, the empty string, the numbers 0,
  -0 and NaN) \<open>normalizeNumericValue\<close> returns the empty string. For every other input the
  result is a prefix of the trimmed string form: when that form starts with a digit, a dot
  or a minus sign, the result is its longest prefix made of such characters only; when it
  does not, the result is the trimmed form itself. Whenever the trimmed form is a literal
  of \<open>[-]?[0-9]*[.]?[0-9]+\<close> followed by nothing or by a character outside the class, the
  result is that literal. The function is total: it returns a string for every input.
\<close>

theorem normalizeNumericValue_class_run:
  "(falsy v \<longrightarrow> normalizeNumericValue v = []) \<and>
   (\<not> falsy v \<longrightarrow> prefix (normalizeNumericValue v) (trim (js_String v))) \<and>
   (\<not> falsy v \<and> trim (js_String v) \<noteq> [] \<and> numeric_char (hd (trim (js_String v))) \<longrightarrow>
      normalizeNumericValue v \<noteq> [] \<and> list_all numeric_char (normalizeNumericValue v) \<and>
      (\<forall>p. prefix p (trim (js_String v)) \<and> list_all numeric_char p \<longrightarrow>
           prefix p (normalizeNumericValue v))) \<and>
   (\<not> falsy v \<and> (trim (js_String v) = [] \<or> \<not> numeric_char (hd (trim (js_String v)))) \<longrightarrow>
      normalizeNumericValue v = trim (js_String v)) \<and>
   (\<forall>lit rest. \<not> falsy v \<and> trim (js_String v) = lit @ rest \<and> spec_numeric_literal lit \<and>
      (rest = [] \<or> \<not> numeric_char (hd rest)) \<longrightarrow> normalizeNumericValue v = lit)"
proof (intro conjI impI allI)
  assume "falsy v"
  then show "normalizeNumericValue v = []" by (simp add: normalizeNumericValue_eq)
next
  assume "\<not> falsy v"
  then show "prefix (normalizeNumericValue v) (trim (js_String v))"
    by (simp add: normalizeNumericValue_eq takeWhile_is_prefix)
next
  assume a: "\<not> falsy v \<and> trim (js_String v) \<noteq> [] \<and> numeric_char (hd (trim (js_String v)))"
  then have r: "normalizeNumericValue v = takeWhile numeric_char (trim (js_String v))"
    by (simp add: normalizeNumericValue_eq)
  from a show "normalizeNumericValue v \<noteq> []" unfolding r by (simp add: takeWhile_eq_Nil_iff)
  show "list_all numeric_char (normalizeNumericValue v)" unfolding r by (rule list_all_takeWhile)
  fix p assume "prefix p (trim (js_String v)) \<and> list_all numeric_char p"
  then show "prefix p (normalizeNumericValue v)" unfolding r by (simp add: takeWhile_longest)
next
  assume "\<not> falsy v \<and> (trim (js_String v) = [] \<or> \<not> numeric_char (hd (trim (js_String v))))"
  then show "normalizeNumericValue v = trim (js_String v)"
    by (auto simp: normalizeNumericValue_eq)
next
  fix lit rest
  assume a: "\<not> falsy v \<and> trim (js_String v) = lit @ rest \<and> spec_numeric_literal lit \<and>
      (rest = [] \<or> \<not> numeric_char (hd rest))"
  then have l: "lit \<noteq> [] \<and> list_all numeric_char lit" by (simp add: spec_numeric_literal_chars)
  with a have t: "takeWhile numeric_char (trim (js_String v)) = lit"
    by (intro run_of_literal [of _ lit rest]) auto
  from a l have "trim (js_String v) \<noteq> [] \<and> numeric_char (hd (trim (js_String v)))"
    by (cases lit) (auto)
  with a t show "normalizeNumericValue v = lit" by (simp add: normalizeNumericValue_eq)
qed

theorem normalizeNumericValue_class_run_witness:
  "falsy JNull \<and> normalizeNumericValue JNull = [] \<and>
   falsy (JNumber ''0'') \<and> normalizeNumericValue (JNumber ''0'') = [] \<and>
   falsy (JNumber ''NaN'') \<and> normalizeNumericValue (JNumber ''NaN'') = [] \<and>
   \<not> falsy (JString ''16px'') \<and> trim (js_String (JString ''16px'')) = ''16'' @ ''px'' \<and>
   numeric_char (hd (trim (js_String (JString ''16px'')))) \<and>
   spec_numeric_literal ''16'' \<and> \<not> numeric_char (hd ''px'') \<and>
   normalizeNumericValue (JString ''16px'') = ''16'' \<and>
   prefix ''1'' (trim (js_String (JString ''16px''))) \<and> list_all numeric_char ''1'' \<and>
   prefix ''1'' (normalizeNumericValue (JString ''16px'')) \<and>
   \<not> falsy (JString '' auto '') \<and> \<not> numeric_char (hd (trim (js_String (JString '' auto '')))) \<and>
   normalizeNumericValue (JString '' auto '') = ''auto'' \<and>
   \<not> falsy (JNumber ''1e+21'') \<and> trim (js_String (JNumber ''1e+21'')) = ''1'' @ ''e+21'' \<and>
   spec_numeric_literal ''1'' \<and> \<not> numeric_char (hd ''e+21'') \<and>
   normalizeNumericValue (JNumber ''1e+21'') = ''1'' \<and>
   \<not> falsy (JString ([CHR 0xC2, CHR 0xA0] @ ''16px'')) \<and>
   trim (js_String (JString ([CHR 0xC2, CHR 0xA0] @ ''16px''))) = ''16'' @ ''px'' \<and>
   normalizeNumericValue (JString ([CHR 0xC2, CHR 0xA0] @ ''16px'')) = ''16''"
proof -
  have e: "falsy JNull \<and>
   \<not> falsy (JString ''16px'') \<and> trim (js_String (JString ''16px'')) = ''16'' @ ''px'' \<and>
   numeric_char (hd (trim (js_String (JString ''16px'')))) \<and>
   spec_numeric_literal ''16'' \<and> \<not> numeric_char (hd ''px'') \<and>
   prefix ''1'' (trim (js_String (JString ''16px''))) \<and> list_all numeric_char ''1'' \<and>
   \<not> falsy (JString '' auto '') \<and> \<not> numeric_char (hd (trim (js_String (JString '' auto '')))) \<and>
   trim (js_String (JString '' auto '')) = ''auto''"
    by code_simp
  have w: "falsy JNull \<and> normalizeNumericValue JNull = [] \<and>
   \<not> falsy (JString ''16px'') \<and> trim (js_String (JString ''16px'')) = ''16'' @ ''px'' \<and>
   numeric_char (hd (trim (js_String (JString ''16px'')))) \<and>
   spec_numeric_literal ''16'' \<and> \<not> numeric_char (hd ''px'') \<and>
   normalizeNumericValue (JString ''16px'') = ''16'' \<and>
   prefix ''1'' (trim (js_String (JString ''16px''))) \<and> list_all numeric_char ''1'' \<and>
   prefix ''1'' (normalizeNumericValue (JString ''16px'')) \<and>
   \<not> falsy (JString '' auto '') \<and> \<not> numeric_char (hd (trim (js_String (JString '' auto '')))) \<and>
   normalizeNumericValue (JString '' auto '') = ''auto''"
    using e normalizeNumericValue_class_run [of JNull]
      normalizeNumericValue_class_run [of "JString ''16px''"]
      normalizeNumericValue_class_run [of "JString '' auto ''"]
    by (metis append_Nil2)
  have f: "falsy (JNumber ''0'') \<and> falsy (JNumber ''NaN'')"
    by code_simp
  from f normalizeNumericValue_class_run [of "JNumber ''0''"]
    normalizeNumericValue_class_run [of "JNumber ''NaN''"]
  have z: "normalizeNumericValue (JNumber ''0'') = [] \<and> normalizeNumericValue (JNumber ''NaN'') = []"
    by blast
  have g: "\<not> falsy (JNumber ''1e+21'') \<and> trim (js_String (JNumber ''1e+21'')) = ''1'' @ ''e+21'' \<and>
   spec_numeric_literal ''1'' \<and> \<not> numeric_char (hd ''e+21'')"
    by code_simp
  from g normalizeNumericValue_class_run [of "JNumber ''1e+21''"]
  have n: "normalizeNumericValue (JNumber ''1e+21'') = ''1''"
    by blast
  have h: "\<not> falsy (JString ([CHR 0xC2, CHR 0xA0] @ ''16px'')) \<and>
   trim (js_String (JString ([CHR 0xC2, CHR 0xA0] @ ''16px''))) = ''16'' @ ''px'' \<and>
   spec_numeric_literal ''16'' \<and> \<not> numeric_char (hd ''px'')"
    by code_simp
  from h normalizeNumericValue_class_run [of "JString ([CHR 0xC2, CHR 0xA0] @ ''16px'')"]
  have b: "normalizeNumericValue (JString ([CHR 0xC2, CHR 0xA0] @ ''16px'')) = ''16''"
    by blast
  from w f z g n h b show ?thesis by blast
qed

text \<open>
  The run of class characters need not be a numeric literal: for \<open>1.2.3px\<close> the code
  returns \<open>1.2.3\<close>, where the longest prefix that is a literal is \<open>1.2\<close>.
\<close>

theorem normalizeNumericValue_not_longest_literal:
  "normalizeNumericValue (JString ''1.2.3px'') = ''1.2.3'' \<and>
   spec_normalize (JString ''1.2.3px'') = ''1.2''"
  by code_simp

section \<open>Properties of the Class Generator\<close>

lemma set_emit: "x \<in> set (emit c tok) \<longleftrightarrow> c \<and> x = tok"
  by (auto simp: emit_def)

lemma sublist_trans: "sublist a b \<Longrightarrow> sublist b c \<Longrightarrow> sublist a c"
  by (rule sublist_order.order.trans)

lemma starts_numeric_run:
  "starts_numeric v \<Longrightarrow> list_all numeric_char (normalizeNumericValue (JString v))"
  by (auto simp: starts_numeric_def normalizeNumericValue_eq list_all_takeWhile
      split: list.splits)

lemma numeric_not_p: "numeric_char c \<Longrightarrow> c \<noteq> CHR ''p''"
  by (auto simp: numeric_char_def is_digit_def)

lemma no_pxpx_run: "list_all numeric_char n \<Longrightarrow> \<not> sublist ''pxpx'' (n @ ''px]'')"
proof (induction n)
  case Nil
  show ?case by (simp add: sublist_Cons_right)
next
  case (Cons c n)
  then show ?case by (auto simp: sublist_Cons_right dest: numeric_not_p)
qed

lemma pxpx_step: "c \<noteq> CHR ''1'' \<Longrightarrow> sublist ''16pxpx'' (c # b) = sublist ''16pxpx'' b"
  by (simp add: sublist_Cons_right)

lemma pxpx_bp: "sublist ''16pxpx'' (breakpoint_prefix bp @ b) = sublist ''16pxpx'' b"
  by (cases bp) (simp_all add: breakpoint_prefix_def pxpx_step)

lemma pxpx_no_p: "CHR ''p'' \<notin> set t \<Longrightarrow> \<not> sublist ''16pxpx'' t"
  by (auto dest: set_mono_sublist)

lemma pxpx_snoc:
  assumes "c \<notin> set ''16pxpx''"
  shows "sublist ''16pxpx'' (a @ [c]) = sublist ''16pxpx'' a"
proof
  assume "sublist ''16pxpx'' (a @ [c])"
  then consider "sublist ''16pxpx'' a" | "sublist ''16pxpx'' [c]"
    | x1 x2 where "''16pxpx'' = x1 @ x2" "suffix x1 a" "prefix x2 [c]"
    by (auto simp: sublist_append)
  then show "sublist ''16pxpx'' a"
  proof cases
    case 1 then show ?thesis .
  next
    case 2 then show ?thesis by (simp add: sublist_Cons_right)
  next
    case 3
    from 3(3) have "x2 = [] \<or> x2 = [c]" by (cases x2) (auto simp: prefix_Cons)
    then show ?thesis
    proof
      assume "x2 = []" with 3 show ?thesis by auto
    next
      assume "x2 = [c]"
      with 3(1) have "c \<in> set ''16pxpx''" by (metis in_set_conv_decomp)
      with assms show ?thesis by simp
    qed
  qed
qed (auto simp: sublist_append)

lemma pxpx_px: "list_all numeric_char n \<Longrightarrow> \<not> sublist ''16pxpx'' (n @ ''px]'')"
proof
  assume n: "list_all numeric_char n" and "sublist ''16pxpx'' (n @ ''px]'')"
  moreover have "sublist ''pxpx'' ''16pxpx''" by (simp add: sublist_Cons_right)
  ultimately have "sublist ''pxpx'' (n @ ''px]'')" by (blast intro: sublist_trans)
  with no_pxpx_run [OF n] show False by simp
qed

lemma pxpx_run: "list_all numeric_char n \<Longrightarrow> CHR ''p'' \<notin> set n"
  by (auto simp: list_all_iff dest: numeric_not_p)

lemma pxpx_deg: "list_all numeric_char n \<Longrightarrow> \<not> sublist ''16pxpx'' (n @ ''deg]'')"
  by (rule pxpx_no_p) (auto dest: pxpx_run)

lemma pxpx_close: "list_all numeric_char n \<Longrightarrow> \<not> sublist ''16pxpx'' (n @ '']'')"
  by (rule pxpx_no_p) (auto dest: pxpx_run)

lemma is_digit_digit_char: "d < 10 \<Longrightarrow> is_digit (digit_char d)"
proof -
  assume "d < 10"
  then have d: "d \<in> set [0, 1, 2, 3, 4, 5, 6, 7, 8, 9]" by auto
  have "list_all (\<lambda>d. is_digit (digit_char d)) [0, 1, 2, 3, 4, 5, 6, 7, 8, 9]"
    by code_simp
  with d show ?thesis unfolding list_all_iff by blast
qed

lemma numeric_show_nat: "list_all numeric_char (show_nat n)"
proof (induction n rule: show_nat.induct)
  case (1 n)
  show ?case
  proof (cases "n < 10")
    case True
    then show ?thesis
      by (subst show_nat.simps) (simp add: is_digit_digit_char numeric_char_def)
  next
    case False
    have "n mod 10 < 10" by simp
    then have "numeric_char (digit_char (n mod 10))"
      by (simp add: is_digit_digit_char numeric_char_def)
    with False "1.IH" show ?thesis
      by (subst show_nat.simps) simp
  qed
qed

lemma numeric_show_int: "list_all numeric_char (show_int k)"
  by (simp add: show_int_def numeric_show_nat numeric_char_def)

lemma numeric_show_div100: "list_all numeric_char (show_div100 k)"
proof -
  have "\<And>d. d < 10 \<Longrightarrow> numeric_char (digit_char d)"
    by (simp add: is_digit_digit_char numeric_char_def)
  moreover have "nat \<bar>k\<bar> mod 100 div 10 < 10" "nat \<bar>k\<bar> mod 100 mod 10 < 10" by simp_all
  ultimately show ?thesis
    by (simp add: show_div100_def Let_def numeric_show_nat numeric_char_def)
qed

lemma pxpx_tail: "sublist ''16pxpx'' (t @ ''px]'') \<Longrightarrow> sublist ''16px'' t"
proof -
  assume "sublist ''16pxpx'' (t @ ''px]'')"
  then consider "sublist ''16pxpx'' t" | "sublist ''16pxpx'' ''px]''"
    | x1 x2 where "''16pxpx'' = x1 @ x2" "suffix x1 t" "prefix x2 ''px]''"
    by (auto simp: sublist_append)
  then show ?thesis
  proof cases
    case 1
    moreover have "sublist ''16px'' ''16pxpx''" by simp
    ultimately show ?thesis by (blast intro: sublist_trans)
  next
    case 2
    then show ?thesis by (simp add: sublist_Cons_right)
  next
    case 3
    from 3(3) have "x2 = [] \<or> x2 = ''p'' \<or> x2 = ''px'' \<or> x2 = ''px]''"
      by (auto simp: prefix_Cons)
    then show ?thesis
    proof (elim disjE)
      assume "x2 = []"
      with 3 have "suffix ''16pxpx'' t" by simp
      then have "sublist ''16pxpx'' t" by auto
      moreover have "sublist ''16px'' ''16pxpx''" by simp
      ultimately show ?thesis by (blast intro: sublist_trans)
    next
      assume "x2 = ''p''"
      with 3(1) have "''16pxpx'' = x1 @ ''p''" by simp
      then have "last ''16pxpx'' = CHR ''p''" by (metis last_snoc)
      then show ?thesis by simp
    next
      assume "x2 = ''px''"
      with 3(1) have "''16px'' @ ''px'' = x1 @ ''px''" by simp
      then have "x1 = ''16px''" by (simp only: append_same_eq)
      with 3(2) show ?thesis by auto
    next
      assume "x2 = ''px]''"
      with 3(1) have "''16pxpx'' = (x1 @ ''px'') @ '']''" by simp
      then have "last ''16pxpx'' = CHR '']''" by (metis last_snoc)
      then show ?thesis by simp
    qed
  qed
qed

lemma sublist_normalize: "sublist (normalizeNumericValue (JString v)) v"
proof -
  have "prefix (normalizeNumericValue (JString v)) (trim v) \<or> normalizeNumericValue (JString v) = []"
    by (auto simp: normalizeNumericValue_eq takeWhile_is_prefix)
  moreover have "sublist (trim v) v" by (rule sublist_trim)
  ultimately show ?thesis
    by (metis prefix_imp_sublist sublist_trans sublist_Nil_left)
qed

lemma pxpx_spacing_px:
  assumes "unit_stripped v"
  shows "\<not> sublist ''16pxpx'' (normalizeNumericValue (JString v) @ ''px]'')"
proof (cases "starts_numeric v")
  case True
  then show ?thesis by (intro pxpx_px starts_numeric_run)
next
  case False
  with assms have "\<not> sublist ''16px'' v" by (simp add: unit_stripped_def)
  then have "\<not> sublist ''16px'' (normalizeNumericValue (JString v))"
    using sublist_normalize [of v] by (meson sublist_trans)
  then show ?thesis using pxpx_tail by blast
qed

lemma pxpx_spacing:
  assumes "unit_stripped v"
  shows "\<not> sublist ''16pxpx'' (normalizeNumericValue (JString v))"
proof (cases "starts_numeric v")
  case True
  then show ?thesis by (intro pxpx_no_p pxpx_run starts_numeric_run)
next
  case False
  with assms have "\<not> sublist ''16px'' v" by (simp add: unit_stripped_def)
  then have "\<not> sublist ''16px'' (normalizeNumericValue (JString v))"
    using sublist_normalize [of v] by (meson sublist_trans)
  moreover have "sublist ''16px'' ''16pxpx''" by simp
  ultimately show ?thesis by (blast intro: sublist_trans)
qed

lemma pxpx_position_type: "\<not> sublist ''16pxpx'' (position_type_name t)"
  by (cases t) (simp_all add: pxpx_step)

lemmas class_defs = padding_classes_def margin_classes_def position_classes_def
  size_classes_def typography_classes_def transforms_classes_def effects_classes_def
  border_classes_def

lemma pxpx_padding:
  assumes "list_all unit_stripped [padding_l p, padding_t p, padding_r p, padding_b p]"
    and "t \<in> set (padding_classes (breakpoint_prefix bp) p)"
  shows "\<not> sublist ''16pxpx'' t"
  using assms
  by (auto simp: padding_classes_def Let_def set_emit pxpx_bp pxpx_step pxpx_spacing_px)

lemma pxpx_margin:
  assumes "list_all unit_stripped [margin_x m, margin_y m]"
    and "t \<in> set (margin_classes (breakpoint_prefix bp) m)"
  shows "\<not> sublist ''16pxpx'' t"
  using assms
  by (auto simp: margin_classes_def Let_def set_emit pxpx_bp pxpx_step pxpx_spacing_px)

lemma pxpx_position:
  assumes "list_all unit_stripped
      [position_zIndex p, position_l p, position_t p, position_r p, position_b p]"
    and "t \<in> set (position_classes (breakpoint_prefix bp) p)"
  shows "\<not> sublist ''16pxpx'' t"
  using assms
  by (auto simp: position_classes_def set_emit pxpx_bp pxpx_step pxpx_snoc pxpx_spacing_px pxpx_spacing
      pxpx_position_type)


lemma pxpx_size:
  assumes "list_all (\<lambda>x. \<not> sublist ''16pxpx'' x)
      [size_width z, size_height z, size_maxWidth z, size_maxHeight z, size_minWidth z,
       size_minHeight z]"
    and "t \<in> set (size_classes (breakpoint_prefix bp) z)"
  shows "\<not> sublist ''16pxpx'' t"
  using assms
  by (auto simp: size_classes_def set_emit pxpx_bp pxpx_step pxpx_snoc)

lemma pxpx_typography:
  assumes "list_all (\<lambda>x. \<not> sublist ''16pxpx'' x)
      [typography_fontFamily y, typography_fontWeight y, typography_fontSize y,
       typography_letterSpacing y, typography_lineHeight y, typography_textAlign y]"
    and "t \<in> set (typography_classes (breakpoint_prefix bp) y)"
  shows "\<not> sublist ''16pxpx'' t"
  using assms
  by (auto simp: typography_classes_def set_emit pxpx_bp pxpx_step pxpx_snoc)

lemma pxpx_transforms:
  assumes "t \<in> set (transforms_classes (breakpoint_prefix bp) y)"
  shows "\<not> sublist ''16pxpx'' t"
  using assms
  by (auto simp: transforms_classes_def set_emit pxpx_bp pxpx_step pxpx_px pxpx_deg pxpx_close
      numeric_show_int numeric_show_div100)

lemma pxpx_effects:
  assumes "\<not> sublist ''16pxpx'' (effects_shadow e)"
    and "t \<in> set (effects_classes (breakpoint_prefix bp) e)"
  shows "\<not> sublist ''16pxpx'' t"
  using assms
  by (auto simp: effects_classes_def set_emit pxpx_bp pxpx_step pxpx_px pxpx_deg pxpx_close
      numeric_show_int numeric_show_div100)

lemma pxpx_border:
  assumes "unit_stripped (border_width b)" "\<not> sublist ''16pxpx'' (border_style b)"
    and "t \<in> set (border_classes (breakpoint_prefix bp) b)"
  shows "\<not> sublist ''16pxpx'' t"
  using assms
  by (auto simp: border_classes_def set_emit pxpx_bp pxpx_step pxpx_px pxpx_spacing_px numeric_show_int)

lemma pxpx_property_classes:
  assumes "list_all unit_stripped (spacing_values s)"
    and "list_all (\<lambda>x. \<not> sublist ''16pxpx'' x) (verbatim_strings s)"
    and "t \<in> set (property_classes (breakpoint_prefix bp) s)"
  shows "\<not> sublist ''16pxpx'' t"
proof -
  from assms(3) consider
      "t \<in> set (padding_classes (breakpoint_prefix bp) (padding s))"
    | "t \<in> set (margin_classes (breakpoint_prefix bp) (margin s))"
    | "t \<in> set (position_classes (breakpoint_prefix bp) (position s))"
    | "t \<in> set (size_classes (breakpoint_prefix bp) (size_box s))"
    | "t \<in> set (typography_classes (breakpoint_prefix bp) (typography s))"
    | "t \<in> set (transforms_classes (breakpoint_prefix bp) (transforms s))"
    | "t \<in> set (effects_classes (breakpoint_prefix bp) (effects s))"
    | "t \<in> set (border_classes (breakpoint_prefix bp) (border s))"
    by (auto simp: property_classes_def)
  then show ?thesis
  proof cases
    case 1
    from assms(1) have "list_all unit_stripped
        [padding_l (padding s), padding_t (padding s), padding_r (padding s),
         padding_b (padding s)]"
      by (simp add: spacing_values_def)
    from this 1 show ?thesis by (rule pxpx_padding)
  next
    case 2
    from assms(1) have "list_all unit_stripped [margin_x (margin s), margin_y (margin s)]"
      by (simp add: spacing_values_def)
    from this 2 show ?thesis by (rule pxpx_margin)
  next
    case 3
    from assms(1) have "list_all unit_stripped
        [position_zIndex (position s), position_l (position s), position_t (position s),
         position_r (position s), position_b (position s)]"
      by (simp add: spacing_values_def)
    from this 3 show ?thesis by (rule pxpx_position)
  next
    case 4
    from assms(2) have "list_all (\<lambda>x. \<not> sublist ''16pxpx'' x)
        [size_width (size_box s), size_height (size_box s), size_maxWidth (size_box s),
         size_maxHeight (size_box s), size_minWidth (size_box s), size_minHeight (size_box s)]"
      by (simp add: verbatim_strings_def)
    from this 4 show ?thesis by (rule pxpx_size)
  next
    case 5
    from assms(2) have "list_all (\<lambda>x. \<not> sublist ''16pxpx'' x)
        [typography_fontFamily (typography s), typography_fontWeight (typography s),
         typography_fontSize (typography s), typography_letterSpacing (typography s),
         typography_lineHeight (typography s), typography_textAlign (typography s)]"
      by (simp add: verbatim_strings_def)
    from this 5 show ?thesis by (rule pxpx_typography)
  next
    case 6
    then show ?thesis by (rule pxpx_transforms)
  next
    case 7
    from assms(2) have "\<not> sublist ''16pxpx'' (effects_shadow (effects s))"
      by (simp add: verbatim_strings_def)
    from this 7 show ?thesis by (rule pxpx_effects)
  next
    case 8
    from assms(1) have w: "unit_stripped (border_width (border s))"
      by (simp add: spacing_values_def)
    from assms(2) have "\<not> sublist ''16pxpx'' (border_style (border s))"
      by (simp add: verbatim_strings_def)
    from w this 8 show ?thesis by (rule pxpx_border)
  qed
qed

lemma sublist_join:
  assumes "CHR '' '' \<notin> set x" "x \<noteq> []"
  shows "sublist x (join '' '' ts) \<Longrightarrow> \<exists>t \<in> set ts. sublist x t"
proof (induction ts)
  case Nil
  then show ?case using assms by simp
next
  case (Cons y ys)
  show ?case
  proof (cases ys)
    case Nil
    with Cons.prems show ?thesis by simp
  next
    case (Cons z zs)
    with Cons.prems have "sublist x (y @ CHR '' '' # join '' '' ys)" by simp
    then consider "sublist x y" | "sublist x (CHR '' '' # join '' '' ys)"
      | x1 x2 where "x = x1 @ x2" "suffix x1 y" "prefix x2 (CHR '' '' # join '' '' ys)"
      by (auto simp: sublist_append)
    then show ?thesis
    proof cases
      case 1 then show ?thesis by auto
    next
      case 2
      with assms have "sublist x (join '' '' ys)"
        by (cases x) (auto simp: sublist_Cons_right)
      with Cons.IH show ?thesis by auto
    next
      case 3
      show ?thesis
      proof (cases x2)
        case Nil
        with 3 have "sublist x y" by auto
        then show ?thesis by auto
      next
        case (Cons c cs)
        with 3(3) have "c = CHR '' ''" by simp
        with 3(1) Cons assms(1) show ?thesis by simp
      qed
    qed
  qed
qed

text \<open>
  C1 (as amended). When each of the four padding values is \<open>'16'\<close> or \<open>'16px'\<close>, the
  padding group at breakpoint \<open>base\<close> is exactly \<open>pl-[16px]\<close>, \<open>pt-[16px]\<close>,
  \<open>pr-[16px]\<close>, \<open>pb-[16px]\<close>, and these are the first four classes of the generator's
  output. For every state and breakpoint the output does not contain \<open>16pxpx\<close>, provided
  that every spacing value (padding, margin, z-index, position offsets, border width) is
  blank, or starts after trimming with a digit, a dot or a minus sign, or does not contain
  \<open>16px\<close>, and that no string which the generator copies as it is (size fields,
  typography and shadow strings, border style, the user's classes) contains \<open>16pxpx\<close>.
\<close>

theorem generated_classes_px_once:
  "(padding_l (padding s) \<in> {''16'', ''16px''} \<and> padding_t (padding s) \<in> {''16'', ''16px''} \<and>
    padding_r (padding s) \<in> {''16'', ''16px''} \<and> padding_b (padding s) \<in> {''16'', ''16px''} \<longrightarrow>
      padding_classes (breakpoint_prefix Base) (padding s) =
        [''pl-[16px]'', ''pt-[16px]'', ''pr-[16px]'', ''pb-[16px]''] \<and>
      prefix [''pl-[16px]'', ''pt-[16px]'', ''pr-[16px]'', ''pb-[16px]'']
        (generated_class_list s Base)) \<and>
   (list_all unit_stripped (spacing_values s) \<and>
    list_all (\<lambda>x. \<not> sublist ''16pxpx'' x) (verbatim_strings s) \<longrightarrow>
      \<not> sublist ''16pxpx'' (useGeneratedClasses s bp))"
proof (intro conjI impI)
  have n: "normalizeNumericValue (JString ''16'') = ''16''"
    "normalizeNumericValue (JString ''16px'') = ''16''" by code_simp+
  assume a: "padding_l (padding s) \<in> {''16'', ''16px''} \<and> padding_t (padding s) \<in> {''16'', ''16px''} \<and>
    padding_r (padding s) \<in> {''16'', ''16px''} \<and> padding_b (padding s) \<in> {''16'', ''16px''}"
  then have "normalizeNumericValue (JString (padding_l (padding s))) = ''16''"
    "normalizeNumericValue (JString (padding_t (padding s))) = ''16''"
    "normalizeNumericValue (JString (padding_r (padding s))) = ''16''"
    "normalizeNumericValue (JString (padding_b (padding s))) = ''16''"
    using n by auto
  then show p: "padding_classes (breakpoint_prefix Base) (padding s) =
        [''pl-[16px]'', ''pt-[16px]'', ''pr-[16px]'', ''pb-[16px]'']"
    by (simp add: padding_classes_def Let_def emit_def breakpoint_prefix_def)
  show "prefix [''pl-[16px]'', ''pt-[16px]'', ''pr-[16px]'', ''pb-[16px]'']
        (generated_class_list s Base)"
    by (simp add: generated_class_list_def property_classes_def p filter_Boolean_def)
next
  assume a: "list_all unit_stripped (spacing_values s) \<and>
    list_all (\<lambda>x. \<not> sublist ''16pxpx'' x) (verbatim_strings s)"
  show "\<not> sublist ''16pxpx'' (useGeneratedClasses s bp)"
  proof
    assume "sublist ''16pxpx'' (useGeneratedClasses s bp)"
    then obtain t where t: "t \<in> set (generated_class_list s bp)" "sublist ''16pxpx'' t"
      unfolding useGeneratedClasses_def using sublist_join [of "''16pxpx''"] by auto
    from t(1) consider "t \<in> set (property_classes (breakpoint_prefix bp) s)"
      | "t \<in> set (tailwindClasses s)"
      by (auto simp: generated_class_list_def filter_Boolean_def)
    then show False
    proof cases
      case 1
      with a t(2) pxpx_property_classes show ?thesis by blast
    next
      case 2
      with a t(2) show ?thesis by (auto simp: verbatim_strings_def list_all_iff)
    qed
  qed
qed

theorem generated_classes_px_once_witness:
  "padding_l (padding mixed_state) \<in> {''16'', ''16px''} \<and>
   padding_t (padding mixed_state) \<in> {''16'', ''16px''} \<and>
   padding_r (padding mixed_state) \<in> {''16'', ''16px''} \<and>
   padding_b (padding mixed_state) \<in> {''16'', ''16px''} \<and>
   padding_classes (breakpoint_prefix Base) (padding mixed_state) =
     [''pl-[16px]'', ''pt-[16px]'', ''pr-[16px]'', ''pb-[16px]''] \<and>
   list_all unit_stripped (spacing_values mixed_state) \<and>
   list_all (\<lambda>x. \<not> sublist ''16pxpx'' x) (verbatim_strings mixed_state) \<and>
   useGeneratedClasses mixed_state Md =
     ''md:pl-[16px] md:pt-[16px] md:pr-[16px] md:pb-[16px] md:mx-[autopx] md:w-[320px] flex'' \<and>
   \<not> sublist ''16pxpx'' (useGeneratedClasses mixed_state Md)"
proof -
  have e: "padding_l (padding mixed_state) \<in> {''16'', ''16px''} \<and>
   padding_t (padding mixed_state) \<in> {''16'', ''16px''} \<and>
   padding_r (padding mixed_state) \<in> {''16'', ''16px''} \<and>
   padding_b (padding mixed_state) \<in> {''16'', ''16px''} \<and>
   list_all unit_stripped (spacing_values mixed_state) \<and>
   list_all (\<lambda>x. \<not> sublist ''16pxpx'' x) (verbatim_strings mixed_state) \<and>
   useGeneratedClasses mixed_state Md =
     ''md:pl-[16px] md:pt-[16px] md:pr-[16px] md:pb-[16px] md:mx-[autopx] md:w-[320px] flex''"
    by code_simp
  show ?thesis
    using e generated_classes_px_once [of mixed_state Md] by blast
qed

text \<open>
  The three ways in which the output comes to contain \<open>16pxpx\<close>: a class of the user,
  a spacing value without a leading number that carries \<open>16px\<close> (it is returned
  unchanged by the normalizer and gets \<open>px\<close> appended), and a size value copied as it is.
\<close>

theorem generated_classes_16pxpx:
  "useGeneratedClasses user_class_state Base = ''w-[16pxpx]'' \<and>
   sublist ''16pxpx'' (useGeneratedClasses user_class_state Base) \<and>
   useGeneratedClasses plus16px_state Base = ''pl-[+16pxpx]'' \<and>
   sublist ''16pxpx'' (useGeneratedClasses plus16px_state Base) \<and>
   useGeneratedClasses height_pxpx_state Base = ''h-[16pxpx]'' \<and>
   sublist ''16pxpx'' (useGeneratedClasses height_pxpx_state Base)"
  by code_simp

lemma p_m_not_opacity:
  "prefix ''p-'' property \<or> prefix ''m-'' property \<Longrightarrow> \<not> prefix ''opacity-'' property"
  by (auto simp: prefix_def)

text \<open>
  C3 (as amended). \<open>getTailwindClass\<close>, for a property that starts with \<open>p-\<close> or \<open>m-\<close>
  and a value that is neither falsy nor \<open>'0'\<close>, emits the short token form when the
  normalized value is in the spacing scale and the bracket form with \<open>px\<close> otherwise.
  The Class Generator does not make that choice: every class of its padding and margin
  groups is the bracket form of the normalized value of one side, in the scale or not.
\<close>

theorem spacing_token_or_bracket:
  "((prefix ''p-'' property \<or> prefix ''m-'' property) \<and> \<not> falsy v \<and> v \<noteq> JString ''0'' \<longrightarrow>
      getTailwindClass f property v bp =
        (if normalizeNumericValue (JString (js_String v)) \<in> set spacingTokens
         then breakpoint_prefix bp @ property @ ''-'' @
              normalizeNumericValue (JString (js_String v))
         else breakpoint_prefix bp @ property @ ''-['' @
              normalizeNumericValue (JString (js_String v)) @ ''px]'')) \<and>
   (\<forall>tok \<in> set (padding_classes pfx p @ margin_classes pfx m).
      tok \<in> (\<lambda>(k, x). pfx @ k @ ''-['' @ normalizeNumericValue (JString x) @ ''px]'') `
        {(''pl'', padding_l p), (''pt'', padding_t p), (''pr'', padding_r p),
         (''pb'', padding_b p), (''mx'', margin_x m), (''my'', margin_y m)})"
proof (intro conjI impI)
  assume a: "(prefix ''p-'' property \<or> prefix ''m-'' property) \<and> \<not> falsy v \<and> v \<noteq> JString ''0''"
  then have "\<not> prefix ''opacity-'' property" by (simp add: p_m_not_opacity)
  with a have "isTailwindToken property (normalizeNumericValue (JString (js_String v))) =
       (normalizeNumericValue (JString (js_String v)) \<in> set spacingTokens)"
    by (auto simp: isTailwindToken_def Let_def normalizeNumericValue_idem)
  with a show "getTailwindClass f property v bp =
        (if normalizeNumericValue (JString (js_String v)) \<in> set spacingTokens
         then breakpoint_prefix bp @ property @ ''-'' @
              normalizeNumericValue (JString (js_String v))
         else breakpoint_prefix bp @ property @ ''-['' @
              normalizeNumericValue (JString (js_String v)) @ ''px]'')"
    by (simp add: getTailwindClass_def Let_def)
next
  show "\<forall>tok \<in> set (padding_classes pfx p @ margin_classes pfx m).
      tok \<in> (\<lambda>(k, x). pfx @ k @ ''-['' @ normalizeNumericValue (JString x) @ ''px]'') `
        {(''pl'', padding_l p), (''pt'', padding_t p), (''pr'', padding_r p),
         (''pb'', padding_b p), (''mx'', margin_x m), (''my'', margin_y m)}"
    by (auto simp: padding_classes_def margin_classes_def Let_def emit_def split: if_splits)
qed

theorem spacing_token_or_bracket_witness:
  "prefix ''p-'' ''p-x'' \<and> \<not> falsy (JString ''4'') \<and> JString ''4'' \<noteq> JString ''0'' \<and>
   normalizeNumericValue (JString (js_String (JString ''4''))) \<in> set spacingTokens \<and>
   getTailwindClass (\<lambda>n. n) ''p-x'' (JString ''4'') Base = ''p-x-4'' \<and>
   \<not> falsy (JString ''5px'') \<and> JString ''5px'' \<noteq> JString ''0'' \<and>
   normalizeNumericValue (JString (js_String (JString ''5px''))) \<notin> set spacingTokens \<and>
   getTailwindClass (\<lambda>n. n) ''p-x'' (JString ''5px'') Sm = ''sm:p-x-[5px]'' \<and>
   ''pl-[4px]'' \<in> set (padding_classes [] (padding padding4_state) @
                        margin_classes [] (margin padding4_state)) \<and>
   ''pl-[4px]'' \<in> (\<lambda>(k, x). [] @ k @ ''-['' @ normalizeNumericValue (JString x) @ ''px]'') `
        {(''pl'', padding_l (padding padding4_state)), (''pt'', padding_t (padding padding4_state)),
         (''pr'', padding_r (padding padding4_state)), (''pb'', padding_b (padding padding4_state)),
         (''mx'', margin_x (margin padding4_state)), (''my'', margin_y (margin padding4_state))}"
proof -
  note inst = spacing_token_or_bracket [of "''p-x''" "JString ''4''" "\<lambda>n. n" Base "[]"
      "padding padding4_state" "margin padding4_state"]
  note inst5 = spacing_token_or_bracket [of "''p-x''" "JString ''5px''" "\<lambda>n. n" Sm "[]"
      "padding padding4_state" "margin padding4_state"]
  have e: "prefix ''p-'' ''p-x'' \<and> \<not> falsy (JString ''4'') \<and> JString ''4'' \<noteq> JString ''0'' \<and>
   normalizeNumericValue (JString (js_String (JString ''4''))) \<in> set spacingTokens \<and>
   \<not> falsy (JString ''5px'') \<and> JString ''5px'' \<noteq> JString ''0'' \<and>
   normalizeNumericValue (JString (js_String (JString ''5px''))) \<notin> set spacingTokens \<and>
   ''pl-[4px]'' \<in> set (padding_classes [] (padding padding4_state) @
                        margin_classes [] (margin padding4_state))"
    by code_simp
  have v: "(if normalizeNumericValue (JString (js_String (JString ''4''))) \<in> set spacingTokens
         then breakpoint_prefix Base @ ''p-x'' @ ''-'' @
              normalizeNumericValue (JString (js_String (JString ''4'')))
         else breakpoint_prefix Base @ ''p-x'' @ ''-['' @
              normalizeNumericValue (JString (js_String (JString ''4''))) @ ''px]'') = ''p-x-4''"
    by code_simp
  have v5: "(if normalizeNumericValue (JString (js_String (JString ''5px''))) \<in> set spacingTokens
         then breakpoint_prefix Sm @ ''p-x'' @ ''-'' @
              normalizeNumericValue (JString (js_String (JString ''5px'')))
         else breakpoint_prefix Sm @ ''p-x'' @ ''-['' @
              normalizeNumericValue (JString (js_String (JString ''5px''))) @ ''px]'') =
        ''sm:p-x-[5px]''"
    by code_simp
  from inst e have "getTailwindClass (\<lambda>n. n) ''p-x'' (JString ''4'') Base =
       (if normalizeNumericValue (JString (js_String (JString ''4''))) \<in> set spacingTokens
         then breakpoint_prefix Base @ ''p-x'' @ ''-'' @
              normalizeNumericValue (JString (js_String (JString ''4'')))
         else breakpoint_prefix Base @ ''p-x'' @ ''-['' @
              normalizeNumericValue (JString (js_String (JString ''4''))) @ ''px]'')"
    by blast
  from this v have g: "getTailwindClass (\<lambda>n. n) ''p-x'' (JString ''4'') Base = ''p-x-4''"
    by (rule trans)
  from inst5 e have "getTailwindClass (\<lambda>n. n) ''p-x'' (JString ''5px'') Sm =
       (if normalizeNumericValue (JString (js_String (JString ''5px''))) \<in> set spacingTokens
         then breakpoint_prefix Sm @ ''p-x'' @ ''-'' @
              normalizeNumericValue (JString (js_String (JString ''5px'')))
         else breakpoint_prefix Sm @ ''p-x'' @ ''-['' @
              normalizeNumericValue (JString (js_String (JString ''5px''))) @ ''px]'')"
    by blast
  from this v5 have g5:
    "getTailwindClass (\<lambda>n. n) ''p-x'' (JString ''5px'') Sm = ''sm:p-x-[5px]''"
    by (rule trans)
  from inst e have "''pl-[4px]'' \<in>
     (\<lambda>(k, x). [] @ k @ ''-['' @ normalizeNumericValue (JString x) @ ''px]'') `
        {(''pl'', padding_l (padding padding4_state)), (''pt'', padding_t (padding padding4_state)),
         (''pr'', padding_r (padding padding4_state)), (''pb'', padding_b (padding padding4_state)),
         (''mx'', margin_x (margin padding4_state)), (''my'', margin_y (margin padding4_state))}"
    by blast
  with e g g5 show ?thesis by blast
qed

text \<open>
  The value \<open>4\<close> is in the spacing scale, and the Class Generator emits \<open>pl-[4px]\<close> for
  it, not \<open>pl-4\<close>.
\<close>

theorem useGeneratedClasses_padding4:
  "''4'' \<in> set spacingTokens \<and> useGeneratedClasses padding4_state Base = ''pl-[4px]''"
  by code_simp

lemma set_listed: "x \<in> set (listed c y) \<longleftrightarrow> c \<and> x = y"
  by (auto simp: listed_def)

lemma prefix_position_type_name:
  "prefix (c # cs) (position_type_name ty) \<longleftrightarrow>
     (ty = Static \<and> prefix (c # cs) ''static'') \<or>
     (ty = Relative \<and> prefix (c # cs) ''relative'') \<or>
     (ty = Absolute \<and> prefix (c # cs) ''absolute'') \<or>
     (ty = Fixed \<and> prefix (c # cs) ''fixed'') \<or>
     (ty = Sticky \<and> prefix (c # cs) ''sticky'')"
  by (cases ty) simp_all

lemma silent_padding:
  "lit \<in> set (silent_prefixes s) \<Longrightarrow> t \<in> set (padding_classes pfx (padding s)) \<Longrightarrow>
   \<not> prefix (pfx @ lit) t"
  by (auto simp: silent_prefixes_def set_listed padding_classes_def Let_def set_emit
      spacing_silent_def)


lemma silent_margin:
  "lit \<in> set (silent_prefixes s) \<Longrightarrow> t \<in> set (margin_classes pfx (margin s)) \<Longrightarrow>
   \<not> prefix (pfx @ lit) t"
  by (auto simp: silent_prefixes_def set_listed margin_classes_def Let_def set_emit
      spacing_silent_def)

lemma silent_position:
  "lit \<in> set (silent_prefixes s) \<Longrightarrow> t \<in> set (position_classes pfx (position s)) \<Longrightarrow>
   \<not> prefix (pfx @ lit) t"
  by (auto simp: silent_prefixes_def set_listed position_classes_def Let_def set_emit
      spacing_silent_def prefix_position_type_name)

lemma silent_size:
  "lit \<in> set (silent_prefixes s) \<Longrightarrow> t \<in> set (size_classes pfx (size_box s)) \<Longrightarrow>
   \<not> prefix (pfx @ lit) t"
  by (auto simp: silent_prefixes_def set_listed size_classes_def Let_def set_emit
      spacing_silent_def)

lemma silent_typography:
  "lit \<in> set (silent_prefixes s) \<Longrightarrow> t \<in> set (typography_classes pfx (typography s)) \<Longrightarrow>
   \<not> prefix (pfx @ lit) t"
  by (auto simp: silent_prefixes_def set_listed typography_classes_def Let_def set_emit
      spacing_silent_def)

lemma silent_transforms:
  "lit \<in> set (silent_prefixes s) \<Longrightarrow> t \<in> set (transforms_classes pfx (transforms s)) \<Longrightarrow>
   \<not> prefix (pfx @ lit) t"
  by (auto simp: silent_prefixes_def set_listed transforms_classes_def Let_def set_emit
      spacing_silent_def)

lemma silent_effects:
  "lit \<in> set (silent_prefixes s) \<Longrightarrow> t \<in> set (effects_classes pfx (effects s)) \<Longrightarrow>
   \<not> prefix (pfx @ lit) t"
  by (auto simp: silent_prefixes_def set_listed effects_classes_def Let_def set_emit
      spacing_silent_def)

lemma silent_border:
  "lit \<in> set (silent_prefixes s) \<Longrightarrow> t \<in> set (border_classes pfx (border s)) \<Longrightarrow>
   \<not> prefix (pfx @ lit) t"
  by (auto simp: silent_prefixes_def set_listed border_classes_def Let_def set_emit
      spacing_silent_def)

lemma silent_property_classes:
  assumes "lit \<in> set (silent_prefixes s)" "t \<in> set (property_classes pfx s)"
  shows "\<not> prefix (pfx @ lit) t"
proof -
  from assms(2) consider
      "t \<in> set (padding_classes pfx (padding s))"
    | "t \<in> set (margin_classes pfx (margin s))"
    | "t \<in> set (position_classes pfx (position s))"
    | "t \<in> set (size_classes pfx (size_box s))"
    | "t \<in> set (typography_classes pfx (typography s))"
    | "t \<in> set (transforms_classes pfx (transforms s))"
    | "t \<in> set (effects_classes pfx (effects s))"
    | "t \<in> set (border_classes pfx (border s))"
    by (auto simp: property_classes_def)
  then show ?thesis
  proof cases
    case 1 from assms(1) this show ?thesis by (rule silent_padding)
  next
    case 2 from assms(1) this show ?thesis by (rule silent_margin)
  next
    case 3 from assms(1) this show ?thesis by (rule silent_position)
  next
    case 4 from assms(1) this show ?thesis by (rule silent_size)
  next
    case 5 from assms(1) this show ?thesis by (rule silent_typography)
  next
    case 6 from assms(1) this show ?thesis by (rule silent_transforms)
  next
    case 7 from assms(1) this show ?thesis by (rule silent_effects)
  next
    case 8 from assms(1) this show ?thesis by (rule silent_border)
  qed
qed

lemma position_type_name_neq:
  "''font-inter'' \<noteq> position_type_name ty" "''font-normal'' \<noteq> position_type_name ty"
  "''text-left'' \<noteq> position_type_name ty" "''border-solid'' \<noteq> position_type_name ty"
  "''border-none'' \<noteq> position_type_name ty"
  by (cases ty; simp)+

lemma silent_class_absent:
  assumes "tok \<in> set (silent_classes s)"
  shows "pfx @ tok \<notin> set (property_classes pfx s)"
  using assms
  by (auto simp: silent_classes_def set_listed property_classes_def class_defs Let_def
      set_emit position_type_name_neq)


lemma map_of_assign_if:
  "map_of (assign_if c k v st) k' = (if c \<and> k = k' then Some v else map_of st k')"
  by (simp add: assign_if_def update_conv)

lemma map_of_parse_line:
  "map_of (parse_line l st) k =
     (case map_of (parse_line l []) k of Some v \<Rightarrow> Some v | None \<Rightarrow> map_of st k)"
proof (cases "map trim (split CHR '':'' l)")
  case Nil
  then show ?thesis by (simp add: parse_line_def)
next
  case (Cons name rest)
  show ?thesis
  proof (cases rest)
    case Nil
    with Cons show ?thesis by (simp add: parse_line_def)
  next
    case (Cons val more)
    with \<open>map trim (split CHR '':'' l) = name # rest\<close> show ?thesis
      by (simp add: parse_line_def update_conv)
  qed
qed

lemma map_of_fold_parse_line:
  "map_of (fold parse_line ls st) k =
     (case map_of (fold parse_line ls []) k of Some v \<Rightarrow> Some v | None \<Rightarrow> map_of st k)"
proof (induction ls arbitrary: st)
  case Nil
  show ?case by simp
next
  case (Cons l ls)
  have "map_of (fold parse_line (l # ls) st) k =
      (case map_of (fold parse_line ls []) k of Some v \<Rightarrow> Some v
       | None \<Rightarrow> map_of (parse_line l st) k)"
    using Cons.IH [of "parse_line l st"] by simp
  moreover have "map_of (fold parse_line (l # ls) []) k =
      (case map_of (fold parse_line ls []) k of Some v \<Rightarrow> Some v
       | None \<Rightarrow> map_of (parse_line l []) k)"
    using Cons.IH [of "parse_line l []"] by simp
  ultimately show ?case
    using map_of_parse_line [of l st k] by (simp split: option.splits)
qed

lemma useGeneratedStyles_key:
  "map_of (useGeneratedStyles s) k =
     (case map_of (inline_styles (inlineCSS s)) k of
        Some v \<Rightarrow> Some v | None \<Rightarrow> map_of (native_styles s) k)"
  using map_of_fold_parse_line [of "filter_Boolean (split CHR '';'' (inlineCSS s))"
      "native_styles s" k]
  by (simp add: useGeneratedStyles_def inline_styles_def)

lemma native_keys:
  "map_of (native_styles s) ''position'' = None"
  "map_of (native_styles s) ''opacity'' = None"
  "typography_textColor (typography s) = [] \<Longrightarrow> map_of (native_styles s) ''color'' = None"
  "appearance_backgroundColor (appearance s) = [] \<Longrightarrow>
     map_of (native_styles s) ''backgroundColor'' = None"
  "border_color (border s) = [] \<Longrightarrow> map_of (native_styles s) ''borderColor'' = None"
  "transforms3D_rotateX (transforms3D s) = 0 \<Longrightarrow> transforms3D_rotateY (transforms3D s) = 0 \<Longrightarrow>
     transforms3D_rotateZ (transforms3D s) = 0 \<Longrightarrow> map_of (native_styles s) ''transform'' = None"
  "transforms3D_perspective (transforms3D s) \<le> 0 \<Longrightarrow>
     map_of (native_styles s) ''perspective'' = None"
  "appearance_blendMode (appearance s) = ''normal'' \<Longrightarrow>
     map_of (native_styles s) ''mixBlendMode'' = None"
  "appearance_backgroundImage (appearance s) = [] \<Longrightarrow>
     map_of (native_styles s) ''backgroundImage'' = None"
  by (simp_all add: native_styles_def Let_def map_of_assign_if transforms3D_list_def emit_def)

lemma silent_native:
  "k \<in> set (silent_style_keys s) \<Longrightarrow> map_of (native_styles s) k = None"
  by (auto simp: silent_style_keys_def set_listed native_keys)

lemma silent_rotation:
  "lit \<in> set (silent_rotations t) \<Longrightarrow> piece \<in> set (transforms3D_list t) \<Longrightarrow>
   \<not> prefix lit piece"
  by (auto simp: silent_rotations_def set_listed transforms3D_list_def set_emit)

text \<open>
  C9 (as amended). For every state and prefix, a field that holds the value which its
  guard skips contributes no class: no derived class starts with the prefix of such a
  field, and the full class of such a field is absent. Those values are: an empty or
  \<open>0\<close> normalized padding or margin; \<open>static\<close>; an empty z-index, position offset, size,
  font size or line height; \<open>inter\<close>, \<open>normal\<close>, \<open>left\<close>, \<open>none\<close> for the keyword
  fields; 0 or 100 for the numeric ones (not above 0 for blur, backdrop blur, grayscale,
  invert, sepia and the radius); an empty or \<open>0\<close> border width with the style \<open>solid\<close>
  or \<open>none\<close>. The Style Generator sets no property from such a field, and never sets
  \<open>position\<close> or \<open>opacity\<close>: these keys hold what the inline CSS text gives them and
  nothing else, a zero rotation adds no component to \<open>transform\<close>, and the result does
  not depend on the position and effects groups.
\<close>

theorem silent_fields_emit_nothing:
  "(\<forall>lit \<in> set (silent_prefixes s). \<forall>t \<in> set (property_classes pfx s).
      \<not> prefix (pfx @ lit) t) \<and>
   (\<forall>tok \<in> set (silent_classes s). pfx @ tok \<notin> set (property_classes pfx s)) \<and>
   (\<forall>k \<in> set (silent_style_keys s).
      map_of (native_styles s) k = None \<and>
      map_of (useGeneratedStyles s) k = map_of (inline_styles (inlineCSS s)) k) \<and>
   (\<forall>lit \<in> set (silent_rotations (transforms3D s)).
      \<forall>piece \<in> set (transforms3D_list (transforms3D s)). \<not> prefix lit piece) \<and>
   useGeneratedStyles (s\<lparr>position := p', effects := e'\<rparr>) = useGeneratedStyles s"
proof (intro conjI ballI)
  fix lit t
  assume "lit \<in> set (silent_prefixes s)" "t \<in> set (property_classes pfx s)"
  then show "\<not> prefix (pfx @ lit) t" by (rule silent_property_classes)
next
  fix tok assume "tok \<in> set (silent_classes s)"
  then show "pfx @ tok \<notin> set (property_classes pfx s)" by (rule silent_class_absent)
next
  fix k assume k: "k \<in> set (silent_style_keys s)"
  then show n: "map_of (native_styles s) k = None" by (rule silent_native)
  show "map_of (useGeneratedStyles s) k = map_of (inline_styles (inlineCSS s)) k"
    using n by (simp add: useGeneratedStyles_key split: option.splits)
next
  fix lit piece
  assume "lit \<in> set (silent_rotations (transforms3D s))"
    "piece \<in> set (transforms3D_list (transforms3D s))"
  then show "\<not> prefix lit piece" by (rule silent_rotation)
next
  show "useGeneratedStyles (s\<lparr>position := p', effects := e'\<rparr>) = useGeneratedStyles s"
    by (simp add: useGeneratedStyles_def native_styles_def)
qed

theorem silent_fields_emit_nothing_witness:
  "''opacity-['' \<in> set (silent_prefixes sparse_state) \<and>
   ''md:pl-[16px]'' \<in> set (property_classes ''md:'' sparse_state) \<and>
   \<not> prefix (''md:'' @ ''opacity-['') ''md:pl-[16px]'' \<and>
   ''text-left'' \<in> set (silent_classes sparse_state) \<and>
   ''md:'' @ ''text-left'' \<notin> set (property_classes ''md:'' sparse_state) \<and>
   ''color'' \<in> set (silent_style_keys sparse_state) \<and>
   map_of (native_styles sparse_state) ''color'' = None \<and>
   map_of (useGeneratedStyles sparse_state) ''color'' =
     map_of (inline_styles (inlineCSS sparse_state)) ''color'' \<and>
   map_of (inline_styles (inlineCSS sparse_state)) ''color'' = Some ''red'' \<and>
   ''rotateY('' \<in> set (silent_rotations (transforms3D sparse_state)) \<and>
   ''rotateX(10deg)'' \<in> set (transforms3D_list (transforms3D sparse_state)) \<and>
   \<not> prefix ''rotateY('' ''rotateX(10deg)''"
proof -
  have e: "''opacity-['' \<in> set (silent_prefixes sparse_state) \<and>
   ''md:pl-[16px]'' \<in> set (property_classes ''md:'' sparse_state) \<and>
   ''text-left'' \<in> set (silent_classes sparse_state) \<and>
   ''color'' \<in> set (silent_style_keys sparse_state) \<and>
   map_of (inline_styles (inlineCSS sparse_state)) ''color'' = Some ''red'' \<and>
   ''rotateY('' \<in> set (silent_rotations (transforms3D sparse_state)) \<and>
   ''rotateX(10deg)'' \<in> set (transforms3D_list (transforms3D sparse_state))"
    by code_simp
  show ?thesis
    using e silent_fields_emit_nothing [of sparse_state "''md:''"] by blast
qed

text \<open>
  A zero or \<open>normal\<close> in a field whose guard tests for the empty string only is not
  skipped: \<open>position.t = '0'\<close> gives \<open>top-[0px]\<close>, \<open>lineHeight = 'normal'\<close> gives
  \<open>leading-[normal]\<close>.
\<close>

theorem zero_and_normal_emit_classes:
  "useGeneratedClasses top0_state Base = ''top-[0px]'' \<and>
   useGeneratedClasses lineHeight_normal_state Base = ''leading-[normal]''"
  by code_simp

text \<open>
  C5. With \<open>size.width = '320'\<close> the Class Generator emits \<open>w-[320]\<close>: the stored value
  goes between the brackets as it is and no \<open>px\<close> is appended.
\<close>

theorem useGeneratedClasses_width320:
  "useGeneratedClasses width320_state Base = ''w-[320]''"
  by code_simp

section \<open>Effective state and overrides\<close>

lemmas empty_defs = empty_state_def empty_padding_def empty_margin_def empty_position_def
  empty_size_def empty_typography_def empty_transforms_def empty_transforms3D_def
  empty_effects_def empty_radius_def empty_border_def empty_appearance_def

lemmas spread_defs = spread_def or_empty_def spread_padding_def spread_margin_def
  spread_position_def spread_size_def spread_typography_def spread_transforms_def
  spread_transforms3D_def spread_effects_def spread_radius_def spread_border_def
  spread_appearance_def

lemma getEffectiveState_empty:
  "breakpointStates st bp = empty_state \<Longrightarrow> getEffectiveState st bp = state st"
  by (simp add: getEffectiveState_def Let_def empty_defs spread_defs)

text \<open>
  C6. When the override record of a breakpoint is exactly \<open>{padding: {l: v}}\<close>, with
  \<open>v = '8'\<close> in particular, the effective state of that breakpoint is the base state
  with \<open>padding.l\<close> set to \<open>v\<close>: \<open>padding.t\<close>, \<open>padding.r\<close>, \<open>padding.b\<close>, every other
  group, the fields of \<open>border.radius\<close> and the six top-level fields are those of the
  base state. This holds for every breakpoint, the non-base ones in particular.
\<close>

theorem getEffectiveState_padding_l_only:
  "breakpointStates st bp = padding_l_override v \<Longrightarrow>
   getEffectiveState st bp =
     (state st)\<lparr>padding := (padding (state st))\<lparr>padding_l := v\<rparr>\<rparr>"
  by (simp add: getEffectiveState_def Let_def padding_l_override_def empty_defs spread_defs)

theorem getEffectiveState_padding_l_only_witness:
  "breakpointStates sample_store Md = padding_l_override ''8'' \<and>
   getEffectiveState sample_store Md =
     neutral_state\<lparr>padding :=
       \<lparr>padding_l = ''8'', padding_t = ''0'', padding_r = ''0'', padding_b = ''0''\<rparr>\<rparr>"
  using getEffectiveState_padding_l_only [of sample_store Md "''8''"]
  by (simp add: sample_store_def neutral_state_def)

text \<open>
  C7. For every store and every non-base breakpoint, whatever its override record held,
  the effective state resolved for it after \<open>clearBreakpointOverrides\<close> is equal to the
  base state.
\<close>

theorem clear_restores_base:
  "bp \<noteq> Base \<Longrightarrow> getEffectiveState (clearBreakpointOverrides bp st) bp = state st"
  by (simp add: getEffectiveState_empty clearBreakpointOverrides_def)

theorem clear_restores_base_witness:
  "Md \<noteq> Base \<and> breakpointStates sample_store Md \<noteq> empty_state \<and>
   getEffectiveState (clearBreakpointOverrides Md sample_store) Md = state sample_store"
  using clear_restores_base [of Md sample_store]
  by (simp add: sample_store_def padding_l_override_def empty_defs)

text \<open>
  C10. \<open>clearBreakpointOverrides bp\<close> leaves the base state and the current breakpoint as
  they are and leaves the override record of every other breakpoint as it is; for a
  non-base \<open>bp\<close> the record of \<open>bp\<close> becomes the empty object; called with \<open>base\<close> it
  returns the store unchanged.
\<close>

theorem clearBreakpointOverrides_frame:
  "state (clearBreakpointOverrides bp st) = state st \<and>
   currentBreakpoint (clearBreakpointOverrides bp st) = currentBreakpoint st \<and>
   (\<forall>bp'. bp' \<noteq> bp \<longrightarrow>
      breakpointStates (clearBreakpointOverrides bp st) bp' = breakpointStates st bp') \<and>
   (bp \<noteq> Base \<longrightarrow> breakpointStates (clearBreakpointOverrides bp st) bp = empty_state) \<and>
   clearBreakpointOverrides Base st = st"
  by (simp add: clearBreakpointOverrides_def)

theorem clearBreakpointOverrides_frame_witness:
  "Lg \<noteq> Md \<and> Md \<noteq> Base \<and>
   breakpointStates sample_store Md \<noteq> empty_state \<and>
   breakpointStates (clearBreakpointOverrides Md sample_store) Md = empty_state \<and>
   breakpointStates (clearBreakpointOverrides Md sample_store) Lg =
     empty_state\<lparr>partial_tag := Some ''span''\<rparr> \<and>
   state (clearBreakpointOverrides Md sample_store) = neutral_state"
  using clearBreakpointOverrides_frame [of Md sample_store]
  by (simp add: sample_store_def padding_l_override_def empty_defs)

section \<open>The aggregator at a concrete input\<close>

text \<open>
  C4. With all four padding sides at \<open>'16'\<close> and no overrides, \<open>useAllBreakpointClasses\<close>
  returns \<open>pl-16\<close>: it pushes one token per breakpoint, built from \<open>padding.l\<close> alone and
  without brackets or unit. The aggregation of the Class Generator's output that the
  specification describes gives \<open>pl-[16px] pt-[16px] pr-[16px] pb-[16px]\<close> there.
\<close>

theorem useAllBreakpointClasses_padding16:
  "useAllBreakpointClasses (initial_store padding16_state) = ''pl-16'' \<and>
   spec_generateAllClasses (initial_store padding16_state) =
     ''pl-[16px] pt-[16px] pr-[16px] pb-[16px]''"
  by code_simp

section \<open>Inline CSS at a concrete input\<close>

text \<open>
  C8. For the inline CSS text \<open>background-image: url(https://x)\<close> the Style Generator
  sets \<open>backgroundImage\<close> to \<open>url(https\<close>: the line is split at every colon and the
  value is the second piece, so the text after the second colon is lost.
\<close>

theorem useGeneratedStyles_inline_url:
  "useGeneratedStyles inline_url_state = [(''backgroundImage'', ''url(https'')]"
  by code_simp

end
